theory Spec2Isabelle
  imports Main "HOL-Library.Sublist"
begin

section \<open>Python values and errors\<close>

text \<open>
  The side-channel \<^verbatim>\<open>batch.example\<close> is typed \<^verbatim>\<open>object | None\<close> in the
  recipe, so it is modelled by a small universe of Python objects: \<^verbatim>\<open>None\<close>, an
  integer, a string, a list and a dictionary with string keys (an association list whose
  first binding of a key is the one a lookup returns).
\<close>

datatype pyobj =
  PyNone
  | PyInt int
  | PyStr string
  | PyList "pyobj list"
  | PyDict "(string \<times> pyobj) list"

text \<open>
  Exceptions are values. \<open>OSError\<close> is what the file system raises, \<open>SetupError\<close>
  what the recipe raises at setup time, \<open>DuplicateMetricError\<close> the metric bag's
  registration error, \<open>RuntimeError\<close> the error of a getter that has nothing to return
  and \<open>ExtensionError\<close> (entry point and message) the error of a failed extension.
\<close>

datatype py_error =
  ValueError string
  | TypeError string
  | AttributeError string
  | OSError string
  | SetupError string
  | DuplicateMetricError string
  | RuntimeError string
  | ExtensionError string string

text \<open>\<^verbatim>\<open>type(x).__name__\<close> and the text an f-string prints for \<^verbatim>\<open>type(x)\<close>.\<close>

fun type_name :: "pyobj \<Rightarrow> string" where
  "type_name PyNone = ''NoneType''"
| "type_name (PyInt _) = ''int''"
| "type_name (PyStr _) = ''str''"
| "type_name (PyList _) = ''list''"
| "type_name (PyDict _) = ''dict''"

definition type_repr :: "pyobj \<Rightarrow> string" where
  "type_repr x = ''<class '' @ [CHR 0x27] @ type_name x @ [CHR 0x27] @ ''>''"

text \<open>\<^verbatim>\<open>isinstance(x, Mapping)\<close> and \<^verbatim>\<open>isinstance(x, Iterable)\<close>.\<close>

fun is_mapping :: "pyobj \<Rightarrow> bool" where
  "is_mapping (PyDict _) = True"
| "is_mapping _ = False"

fun is_iterable :: "pyobj \<Rightarrow> bool" where
  "is_iterable (PyStr _) = True"
| "is_iterable (PyList _) = True"
| "is_iterable (PyDict _) = True"
| "is_iterable _ = False"

text \<open>
  \<^verbatim>\<open>x[key]\<close> on a mapping: \<open>None\<close> stands for the \<^verbatim>\<open>KeyError\<close> the recipe
  catches. The recipe only subscripts an object it has checked to be a mapping.
\<close>

fun getitem :: "pyobj \<Rightarrow> string \<Rightarrow> pyobj option" where
  "getitem (PyDict kvs) key = map_of kvs key"
| "getitem _ key = None"

text \<open>
  What a \<^verbatim>\<open>for\<close> loop over an iterable object visits: the items of a list, the
  one-character strings of a string, the keys of a dictionary.
\<close>

fun iter_items :: "pyobj \<Rightarrow> pyobj list" where
  "iter_items (PyList xs) = xs"
| "iter_items (PyStr s) = map (\<lambda>c. PyStr [c]) s"
| "iter_items (PyDict kvs) = map (\<lambda>kv. PyStr (fst kv)) kvs"
| "iter_items _ = []"

section \<open>Text streams\<close>

text \<open>
  A \<^verbatim>\<open>TextIO\<close> opened for writing: the text already handed to the file
  (\<open>durable\<close>) and the text still in the buffer (\<open>pending\<close>). \<^verbatim>\<open>write\<close> appends
  to the buffer and raises \<^verbatim>\<open>TypeError\<close> for an argument that is not a string;
  \<^verbatim>\<open>flush\<close> empties the buffer into the file.
\<close>

record text_stream =
  stream_name :: string
  durable :: string
  pending :: string

definition stream_write :: "text_stream \<Rightarrow> pyobj \<Rightarrow> py_error + text_stream" where
  "stream_write stream x =
     (case x of
        PyStr s \<Rightarrow> Inr (stream\<lparr>pending := pending stream @ s\<rparr>)
      | _ \<Rightarrow> Inl (TypeError (''write() argument must be str, not '' @ type_name x)))"

definition stream_flush :: "text_stream \<Rightarrow> text_stream" where
  "stream_flush stream = stream\<lparr>durable := durable stream @ pending stream, pending := []\<rparr>"

text \<open>Everything written to a stream so far, flushed or not.\<close>

definition written :: "text_stream \<Rightarrow> string" where
  "written stream = durable stream @ pending stream"

section \<open>Metric bags\<close>

text \<open>
  Modelled from the spec: the metric bag classes (\<^verbatim>\<open>MetricBag\<close>,
  \<^verbatim>\<open>Seq2SeqMetricBag\<close>, \<^verbatim>\<open>Seq2SeqGenerationMetricBag\<close>) and the metrics
  \<^verbatim>\<open>BleuMetric\<close> and \<^verbatim>\<open>ChrfMetric\<close> are not among the sources. The spec
  describes a bag as a mapping from unique metric names to accumulators, each with a
  \<open>persistent\<close> flag. An accumulator is kept as the list of the updates it has received
  (references and hypotheses), of which any scoring formula is a function. The generic
  per-batch counters are kept as the list of \<^verbatim>\<open>update_batch_metrics\<close> calls.
\<close>

record metric =
  metric_device :: string
  persistent :: bool
  updates :: "(pyobj \<times> string list) list"

type_synonym generator_output = "nat list list"

record metric_bag =
  bag_gang_rank :: nat
  metrics :: "(string \<times> metric) list"
  batch_metrics :: "(generator_output \<times> nat) list"

definition BleuMetric :: "string \<Rightarrow> metric" where
  "BleuMetric device = \<lparr>metric_device = device, persistent = True, updates = []\<rparr>"

definition ChrfMetric :: "string \<Rightarrow> metric" where
  "ChrfMetric device = \<lparr>metric_device = device, persistent = True, updates = []\<rparr>"

text \<open>
  Modelled from the spec: \<^verbatim>\<open>register_metric(name, accumulator, persistent)\<close>
  registers a named accumulator; a duplicate name is a fatal error.
\<close>

definition register_metric :: "string \<Rightarrow> metric \<Rightarrow> bool \<Rightarrow> metric_bag \<Rightarrow> py_error + metric_bag" where
  "register_metric name m p bag =
     (if name \<in> set (map fst (metrics bag))
      then Inl (DuplicateMetricError name)
      else Inr (bag\<lparr>metrics := metrics bag @ [(name, m\<lparr>persistent := p\<rparr>)]\<rparr>))"

text \<open>
  Modelled from the spec: the attribute access \<^verbatim>\<open>bag.<name>.update(refs, hyps)\<close>.
  A name that was never registered is no attribute of the bag.
\<close>

definition metric_update :: "string \<Rightarrow> pyobj \<Rightarrow> string list \<Rightarrow> metric_bag \<Rightarrow> py_error + metric_bag" where
  "metric_update name refs hyps bag =
     (case map_of (metrics bag) name of
        None \<Rightarrow> Inl (AttributeError name)
      | Some m \<Rightarrow>
          Inr (bag\<lparr>metrics :=
            map (\<lambda>e. if fst e = name then (fst e, (snd e)\<lparr>updates := updates (snd e) @ [(refs, hyps)]\<rparr>) else e)
              (metrics bag)\<rparr>))"

definition update_batch_metrics :: "generator_output \<Rightarrow> nat \<Rightarrow> metric_bag \<Rightarrow> metric_bag" where
  "update_batch_metrics output n bag = bag\<lparr>batch_metrics := batch_metrics bag @ [(output, n)]\<rparr>"

text \<open>
  Modelled from the spec: at designated checkpoints the Evaluator clears the metrics
  that are not persistent; persistent ones survive.
\<close>

definition reset_non_persistent_metrics :: "metric_bag \<Rightarrow> metric_bag" where
  "reset_non_persistent_metrics bag =
     bag\<lparr>metrics := map (\<lambda>e. if persistent (snd e) then e else (fst e, (snd e)\<lparr>updates := []\<rparr>)) (metrics bag)\<rparr>"

section \<open>Gangs, directions and batches\<close>

record gang =
  rank :: nat
  gang_size :: nat
  device :: string

record gangs =
  root :: gang
  dp :: gang
  tp :: gang

text \<open>
  \<^verbatim>\<open>Direction\<close> is declared outside these sources. The recipe reads its
  \<^verbatim>\<open>target_lang\<close> and formats it into display names and paths; the text that
  formatting gives is carried as the field \<open>direction_str\<close>.
\<close>

record direction =
  source_lang :: string
  target_lang :: string
  direction_str :: string

type_synonym tensor = "nat list list"

text \<open>
  The part of \<^verbatim>\<open>Seq2SeqBatch\<close> the recipe reads. \<open>num_source_elements\<close> is the
  value of the method of that name.
\<close>

record seq2seq_batch =
  example :: pyobj
  source_seqs :: tensor
  source_padding_mask :: "nat list option"
  num_source_elements :: nat

section \<open>The BLEU/chrF++ evaluation unit\<close>

text \<open>
  \<^verbatim>\<open>Seq2SeqGenerator\<close> and \<^verbatim>\<open>SequenceToTextConverter\<close> are external: a
  generator is its model and the text conversion that a converter built from it, a
  tokenizer, a task and a target language performs on source sequences.
\<close>

record seq2seq_generator =
  generator_model :: string
  batch_convert :: "string \<Rightarrow> string \<Rightarrow> string \<Rightarrow> tensor \<Rightarrow> nat list option \<Rightarrow> string list \<times> generator_output"

record eval_unit_base =
  model :: string
  display_name :: string

text \<open>
  \<open>generator_calls\<close> is a ghost counter of the converter's invocations; it is not a
  field of the Python class.
\<close>

record score_unit = eval_unit_base +
  converter :: "tensor \<Rightarrow> nat list option \<Rightarrow> string list \<times> generator_output"
  generator_calls :: nat
  src_output_stream :: "text_stream option"
  ref_output_stream :: "text_stream option"
  hyp_output_stream :: "text_stream option"
  score_metric_bag :: metric_bag

definition Seq2SeqGenerationMetricBag :: "gang \<Rightarrow> metric_bag" where
  "Seq2SeqGenerationMetricBag g = \<lparr>bag_gang_rank = rank g, metrics = [], batch_metrics = []\<rparr>"

definition MTBleuChrfEvalUnit_init ::
  "direction \<Rightarrow> seq2seq_generator \<Rightarrow> string \<Rightarrow> gangs \<Rightarrow>
   text_stream option \<Rightarrow> text_stream option \<Rightarrow> text_stream option \<Rightarrow> py_error + score_unit" where
  "MTBleuChrfEvalUnit_init d generator tokenizer gs src_fp ref_fp hyp_fp =
     (let bag0 = Seq2SeqGenerationMetricBag (dp gs);
          dev = device (root gs)
      in case register_metric ''bleu'' (BleuMetric dev) False bag0 of
           Inl e \<Rightarrow> Inl e
         | Inr bag1 \<Rightarrow>
             (case register_metric ''chrf'' (ChrfMetric dev) False bag1 of
                Inl e \<Rightarrow> Inl e
              | Inr bag2 \<Rightarrow>
                  Inr \<lparr>model = generator_model generator,
                       display_name = ''score/'' @ direction_str d,
                       converter = batch_convert generator tokenizer ''translation'' (target_lang d),
                       generator_calls = 0,
                       src_output_stream = src_fp,
                       ref_output_stream = ref_fp,
                       hyp_output_stream = hyp_fp,
                       score_metric_bag = bag2\<rparr>))"

text \<open>
  The loop \<^verbatim>\<open>for x in xs: stream.write(x); stream.write("\n")\<close>. An exception leaves
  the stream as it was when it was raised.
\<close>

fun write_lines :: "text_stream \<Rightarrow> pyobj list \<Rightarrow> py_error option \<times> text_stream" where
  "write_lines stream [] = (None, stream)"
| "write_lines stream (x # xs) =
     (case stream_write stream x of
        Inl e \<Rightarrow> (Some e, stream)
      | Inr s1 \<Rightarrow>
          (case stream_write s1 (PyStr [CHR 0x0A]) of
             Inl e \<Rightarrow> (Some e, s1)
           | Inr s2 \<Rightarrow> write_lines s2 xs))"

text \<open>One of the three dump blocks: nothing for a missing stream, else the loop and a flush.\<close>

definition dump :: "text_stream option \<Rightarrow> pyobj list \<Rightarrow> py_error option \<times> text_stream option" where
  "dump fp xs =
     (case fp of
        None \<Rightarrow> (None, None)
      | Some stream \<Rightarrow>
          (case write_lines stream xs of
             (Some e, s1) \<Rightarrow> (Some e, Some s1)
           | (None, s1) \<Rightarrow> (None, Some (stream_flush s1))))"

text \<open>
  \<^verbatim>\<open>MTBleuChrfEvalUnit.__call__\<close>: the raised exception, if any, and the unit as the
  call leaves it.
\<close>

definition MTBleuChrfEvalUnit_call :: "score_unit \<Rightarrow> seq2seq_batch \<Rightarrow> py_error option \<times> score_unit" where
  "MTBleuChrfEvalUnit_call self batch =
     (if example batch = PyNone then
        (Some (ValueError ''`batch.example` must not be `None`.''), self)
      else if \<not> is_mapping (example batch) then
        (Some (TypeError (''`batch.example` must be of type `typing.Mapping`, but is of type `''
            @ type_repr (example batch) @ ''` instead.'')), self)
      else (case getitem (example batch) ''source_text'' of
        None \<Rightarrow> (Some (ValueError ''`batch.example` must contain a 'source_text' item.''), self)
      | Some srcs \<Rightarrow>
        (if \<not> is_iterable srcs then
          (Some (TypeError (''`batch.example['source_text'] must be an iterable of strings, but is of type `''
              @ type_repr srcs @ ''` instead.'')), self)
        else (case getitem (example batch) ''target_text'' of
          None \<Rightarrow> (Some (ValueError ''`batch.example` must contain a 'target_text' item.''), self)
        | Some refs \<Rightarrow>
          (if \<not> is_iterable refs then
            (Some (TypeError (''`batch.example['target_text'] must be an iterable of strings, but is of type `''
                @ type_repr refs @ ''` instead.'')), self)
          else
            (let (hyps, output) = converter self (source_seqs batch) (source_padding_mask batch);
                 self1 = self\<lparr>generator_calls := generator_calls self + 1\<rparr>
             in (case metric_update ''bleu'' refs hyps (score_metric_bag self1) of
                 Inl e \<Rightarrow> (Some e, self1)
               | Inr bag1 \<Rightarrow>
                 (case metric_update ''chrf'' refs hyps bag1 of
                    Inl e \<Rightarrow> (Some e, self1\<lparr>score_metric_bag := bag1\<rparr>)
                  | Inr bag2 \<Rightarrow>
                    (let self2 = self1\<lparr>score_metric_bag :=
                                   update_batch_metrics output (num_source_elements batch) bag2\<rparr>
                     in (case dump (src_output_stream self2) (iter_items srcs) of
                         (Some e, fp) \<Rightarrow> (Some e, self2\<lparr>src_output_stream := fp\<rparr>)
                       | (None, fp) \<Rightarrow>
                         (let self3 = self2\<lparr>src_output_stream := fp\<rparr>
                          in (case dump (ref_output_stream self3) (iter_items refs) of
                              (Some e, fp) \<Rightarrow> (Some e, self3\<lparr>ref_output_stream := fp\<rparr>)
                            | (None, fp) \<Rightarrow>
                              (let self4 = self3\<lparr>ref_output_stream := fp\<rparr>
                               in (case dump (hyp_output_stream self4) (map PyStr hyps) of
                                   (e, fp) \<Rightarrow> (e, self4\<lparr>hyp_output_stream := fp\<rparr>)))))))))))))))"

section \<open>The loss evaluation unit\<close>

text \<open>
  \<^verbatim>\<open>MTCriterion\<close> is external: a criterion is its model and the update its call
  makes to the metric bag it is handed.
\<close>

record mt_criterion =
  criterion_model :: string
  criterion_call :: "seq2seq_batch \<Rightarrow> metric_bag \<Rightarrow> metric_bag"

record loss_unit = eval_unit_base +
  criterion :: mt_criterion
  loss_metric_bag :: metric_bag

definition Seq2SeqMetricBag :: "gang \<Rightarrow> bool \<Rightarrow> metric_bag" where
  "Seq2SeqMetricBag g train = \<lparr>bag_gang_rank = rank g, metrics = [], batch_metrics = []\<rparr>"

definition MTLossEvalUnit_init :: "mt_criterion \<Rightarrow> direction \<Rightarrow> gangs \<Rightarrow> loss_unit" where
  "MTLossEvalUnit_init c d gs =
     \<lparr>model = criterion_model c,
      display_name = ''loss/'' @ direction_str d,
      criterion = c,
      loss_metric_bag = Seq2SeqMetricBag (dp gs) False\<rparr>"

definition MTLossEvalUnit_call :: "loss_unit \<Rightarrow> seq2seq_batch \<Rightarrow> loss_unit" where
  "MTLossEvalUnit_call self batch =
     self\<lparr>loss_metric_bag := criterion_call (criterion self) batch (loss_metric_bag self)\<rparr>"

datatype eval_unit = LossUnit loss_unit | ScoreUnit score_unit

text \<open>The output streams a unit holds.\<close>

fun unit_streams :: "eval_unit \<Rightarrow> text_stream option list" where
  "unit_streams (LossUnit u) = []"
| "unit_streams (ScoreUnit u) = [src_output_stream u, ref_output_stream u, hyp_output_stream u]"

fun unit_display_name :: "eval_unit \<Rightarrow> string" where
  "unit_display_name (LossUnit u) = display_name u"
| "unit_display_name (ScoreUnit u) = display_name u"

section \<open>Paths and the file system\<close>

text \<open>
  A \<^verbatim>\<open>pathlib\<close> POSIX path: its anchor (\<open>''/''\<close> when absolute, empty when
  relative) and its parts. A string is cut at the separators, and empty and \<open>''.''\<close>
  components are dropped, as \<^verbatim>\<open>pathlib\<close> does.
\<close>

record path =
  anchor :: string
  parts :: "string list"

fun split_sep :: "string \<Rightarrow> string list" where
  "split_sep [] = [[]]"
| "split_sep (c # cs) =
     (if c = CHR ''/'' then [] # split_sep cs
      else (case split_sep cs of [] \<Rightarrow> [[c]] | p # ps \<Rightarrow> (c # p) # ps))"

definition path_parts :: "string \<Rightarrow> string list" where
  "path_parts s = filter (\<lambda>p. p \<noteq> [] \<and> p \<noteq> ''.'') (split_sep s)"

definition joinpath :: "path \<Rightarrow> string \<Rightarrow> path" where
  "joinpath p s =
     (if s \<noteq> [] \<and> hd s = CHR ''/'' then \<lparr>anchor = ''/'', parts = path_parts s\<rparr>
      else p\<lparr>parts := parts p @ path_parts s\<rparr>)"

definition parent :: "path \<Rightarrow> path" where
  "parent p = p\<lparr>parts := butlast (parts p)\<rparr>"

fun join_sep :: "string list \<Rightarrow> string" where
  "join_sep [] = []"
| "join_sep [p] = p"
| "join_sep (p # q # ps) = p @ ''/'' @ join_sep (q # ps)"

definition path_str :: "path \<Rightarrow> string" where
  "path_str p = (if anchor p = [] \<and> parts p = [] then ''.'' else anchor p @ join_sep (parts p))"

text \<open>The decimal text of a rank, as an f-string prints a non-negative integer.\<close>

fun str_nat :: "nat \<Rightarrow> string" where
  "str_nat n = (if n < 10 then [char_of (48 + n)] else str_nat (n div 10) @ [char_of (48 + n mod 10)])"

declare str_nat.simps [simp del]

text \<open>
  Modelled from the spec: the file system collaborator is not among the sources. The spec
  gives it \<^verbatim>\<open>make_directory(path)\<close> and \<^verbatim>\<open>open_text(path, mode)\<close>, both
  raising a generic I/O error. The model is told on which paths each operation fails and
  records the directories made and the files opened, in order.
\<close>

record file_system =
  mkdir_denied :: "path list"
  open_denied :: "path list"
  directories :: "path list"
  files :: "path list"

definition make_directory :: "file_system \<Rightarrow> path \<Rightarrow> py_error + file_system" where
  "make_directory fs p =
     (if p \<in> set (mkdir_denied fs) then Inl (OSError (path_str p))
      else Inr (fs\<lparr>directories := directories fs @ [p]\<rparr>))"

text \<open>Opening with \<^verbatim>\<open>FileMode.WRITE\<close> gives an empty stream on the file.\<close>

definition open_text :: "file_system \<Rightarrow> path \<Rightarrow> py_error + text_stream \<times> file_system" where
  "open_text fs p =
     (if p \<in> set (open_denied fs) then Inl (OSError (path_str p))
      else Inr (\<lparr>stream_name = path_str p, durable = [], pending = []\<rparr>, fs\<lparr>files := files fs @ [p]\<rparr>))"

section \<open>Loading the evaluator\<close>

datatype batching = StaticBatching nat | LengthBatching nat

datatype sync_mode = UNTIL_FIRST | UNTIL_LAST

record read_options =
  batching :: batching
  direction :: direction
  sync_mode :: sync_mode
  num_prefetch :: nat
  seed :: int

text \<open>
  A data reader is external; it is kept as the arguments
  \<^verbatim>\<open>dataset.create_reader\<close> was called with.
\<close>

record data_reader =
  reader_split :: string
  reader_tokenizer :: string
  reader_gang :: gang
  reader_min_seq_len :: nat
  reader_max_seq_len :: nat
  reader_options :: read_options

definition create_reader :: "string \<Rightarrow> string \<Rightarrow> gang \<Rightarrow> nat \<Rightarrow> nat \<Rightarrow> read_options \<Rightarrow> data_reader" where
  "create_reader split tokenizer g min_len max_len opts =
     \<lparr>reader_split = split, reader_tokenizer = tokenizer, reader_gang = g,
      reader_min_seq_len = min_len, reader_max_seq_len = max_len, reader_options = opts\<rparr>"

record mt_eval_config =
  config_model :: string
  config_seed :: int
  dataset_split :: string
  dataset_min_seq_len :: nat
  dataset_max_seq_len :: nat
  dataset_max_num_tokens :: nat
  dataset_num_prefetch :: nat
  generator_batch_size :: nat
  evaluator_torch_compile :: bool

text \<open>
  What the external set-up calls of the recipe return: the gangs, the directions of the
  data set for a split, the tokenizer, the model (and its compiled form), the generator
  and the criterion built on a model.
\<close>

record collaborators =
  setup_gangs :: gangs
  directions :: "string \<Rightarrow> direction list"
  load_text_tokenizer :: string
  load_eval_model :: string
  compile_eval_model :: "string \<Rightarrow> string"
  create_seq2seq_generator :: "string \<Rightarrow> seq2seq_generator"
  MTCriterion :: "string \<Rightarrow> mt_criterion"

record loader_state =
  st_seed :: int
  st_units :: "eval_unit list"
  st_readers :: "data_reader list"
  st_fs :: file_system

text \<open>The three output paths of a direction on a data-parallel rank.\<close>

definition src_file :: "path \<Rightarrow> direction \<Rightarrow> nat \<Rightarrow> path" where
  "src_file output_dir d r =
     joinpath output_dir (''translations/'' @ direction_str d @ ''/rank_'' @ str_nat r @ ''.src.txt'')"

definition ref_file :: "path \<Rightarrow> direction \<Rightarrow> nat \<Rightarrow> path" where
  "ref_file output_dir d r =
     joinpath output_dir (''translations/'' @ direction_str d @ ''/rank_'' @ str_nat r @ ''.ref.txt'')"

definition hyp_file :: "path \<Rightarrow> direction \<Rightarrow> nat \<Rightarrow> path" where
  "hyp_file output_dir d r =
     joinpath output_dir (''translations/'' @ direction_str d @ ''/rank_'' @ str_nat r @ ''.hyp.txt'')"

text \<open>The two messages of the set-up errors, around the text of the path.\<close>

definition directory_error :: "path \<Rightarrow> py_error" where
  "directory_error p =
     SetupError (''The '' @ [CHR 0x27] @ path_str p @ [CHR 0x27]
       @ '' output directory cannot be created. See the nested exception for details.'')"

definition file_error :: "path \<Rightarrow> py_error" where
  "file_error p =
     SetupError (''The '' @ [CHR 0x27] @ path_str p @ [CHR 0x27]
       @ '' output file cannot be created. See the nested exception for details.'')"

text \<open>
  The branch \<^verbatim>\<open>if gangs.tp.rank == 0\<close> of the loop body: the directory, then the
  three files, each failure wrapped into a \<^verbatim>\<open>SetupError\<close>.
\<close>

definition open_output_streams ::
  "file_system \<Rightarrow> path \<Rightarrow> direction \<Rightarrow> nat \<Rightarrow> py_error + (text_stream \<times> text_stream \<times> text_stream) \<times> file_system" where
  "open_output_streams fs output_dir d r =
     (case make_directory fs (parent (src_file output_dir d r)) of
        Inl ex \<Rightarrow> Inl (directory_error (parent (src_file output_dir d r)))
      | Inr fs1 \<Rightarrow>
        (case open_text fs1 (src_file output_dir d r) of
           Inl ex \<Rightarrow> Inl (file_error (src_file output_dir d r))
         | Inr (src_fp, fs2) \<Rightarrow>
           (case open_text fs2 (ref_file output_dir d r) of
              Inl ex \<Rightarrow> Inl (file_error (ref_file output_dir d r))
            | Inr (ref_fp, fs3) \<Rightarrow>
              (case open_text fs3 (hyp_file output_dir d r) of
                 Inl ex \<Rightarrow> Inl (file_error (hyp_file output_dir d r))
               | Inr (hyp_fp, fs4) \<Rightarrow> Inr ((src_fp, ref_fp, hyp_fp), fs4)))))"

text \<open>One iteration of the loop over the directions.\<close>

definition load_direction ::
  "mt_eval_config \<Rightarrow> path \<Rightarrow> gangs \<Rightarrow> string \<Rightarrow> seq2seq_generator \<Rightarrow> mt_criterion \<Rightarrow>
   direction \<Rightarrow> loader_state \<Rightarrow> py_error + loader_state" where
  "load_direction config output_dir gs tokenizer generator crit d st =
     (let loss_unit = MTLossEvalUnit_init crit d gs;
          units1 = st_units st @ [LossUnit loss_unit];
          read_options1 = \<lparr>batching = LengthBatching (dataset_max_num_tokens config),
                            direction = d, sync_mode = UNTIL_LAST,
                            num_prefetch = dataset_num_prefetch config, seed = st_seed st\<rparr>;
          data_reader1 = create_reader (dataset_split config) tokenizer (dp gs)
                           (dataset_min_seq_len config) (dataset_max_seq_len config) read_options1;
          seed1 = st_seed st + 1;
          readers1 = st_readers st @ [data_reader1]
      in (case (if rank (tp gs) = 0
                then (case open_output_streams (st_fs st) output_dir d (rank (dp gs)) of
                        Inl e \<Rightarrow> Inl e
                      | Inr ((src_fp, ref_fp, hyp_fp), fs1) \<Rightarrow> Inr ((Some src_fp, Some ref_fp, Some hyp_fp), fs1))
                else Inr ((None, None, None), st_fs st)) of
            Inl e \<Rightarrow> Inl e
          | Inr ((src_fp, ref_fp, hyp_fp), fs1) \<Rightarrow>
            (case MTBleuChrfEvalUnit_init d generator tokenizer gs src_fp ref_fp hyp_fp of
               Inl e \<Rightarrow> Inl e
             | Inr score_unit \<Rightarrow>
               (let units2 = units1 @ [ScoreUnit score_unit];
                    read_options2 = \<lparr>batching = StaticBatching (generator_batch_size config),
                                      direction = d, sync_mode = UNTIL_LAST,
                                      num_prefetch = dataset_num_prefetch config, seed = seed1\<rparr>;
                    data_reader2 = create_reader (dataset_split config) tokenizer (dp gs)
                                     (dataset_min_seq_len config) (dataset_max_seq_len config) read_options2;
                    readers2 = readers1 @ [data_reader2];
                    seed2 = seed1 + 1
                in Inr \<lparr>st_seed = seed2, st_units = units2, st_readers = readers2, st_fs = fs1\<rparr>))))"

fun load_directions ::
  "mt_eval_config \<Rightarrow> path \<Rightarrow> gangs \<Rightarrow> string \<Rightarrow> seq2seq_generator \<Rightarrow> mt_criterion \<Rightarrow>
   direction list \<Rightarrow> loader_state \<Rightarrow> py_error + loader_state" where
  "load_directions config output_dir gs tokenizer generator crit [] st = Inr st"
| "load_directions config output_dir gs tokenizer generator crit (d # ds) st =
     (case load_direction config output_dir gs tokenizer generator crit d st of
        Inl e \<Rightarrow> Inl e
      | Inr st1 \<Rightarrow> load_directions config output_dir gs tokenizer generator crit ds st1)"

text \<open>
  The evaluator \<^verbatim>\<open>create_evaluator\<close> returns is external; it is kept as the units,
  the readers and the seed it was handed, with the file system as set-up left it.
\<close>

record evaluator =
  units :: "eval_unit list"
  data_readers :: "data_reader list"
  evaluator_seed :: int
  evaluator_fs :: file_system

definition load_mt_evaluator ::
  "collaborators \<Rightarrow> file_system \<Rightarrow> mt_eval_config \<Rightarrow> path \<Rightarrow> py_error + evaluator" where
  "load_mt_evaluator ext fs config output_dir =
     (let gs = setup_gangs ext;
          tokenizer = load_text_tokenizer ext;
          seed0 = config_seed config;
          seed1 = seed0 + 1;
          model0 = load_eval_model ext;
          model1 = (if evaluator_torch_compile config then compile_eval_model ext model0 else model0);
          seq2seq_generator = create_seq2seq_generator ext model1;
          crit = MTCriterion ext model1
      in (case load_directions config output_dir gs tokenizer seq2seq_generator crit
                 (directions ext (dataset_split config))
                 \<lparr>st_seed = seed1, st_units = [], st_readers = [], st_fs = fs\<rparr> of
            Inl e \<Rightarrow> Inl e
          | Inr st \<Rightarrow>
              Inr \<lparr>units = st_units st, data_readers = st_readers st,
                   evaluator_seed = st_seed st, evaluator_fs = st_fs st\<rparr>))"

section \<open>Setting up the runtime context\<close>

text \<open>
  A runtime context: \<open>context_id\<close> tells one constructed object from another, and
  \<open>registrations\<close> lists the registration functions that have run on it. The
  registration functions are outside these sources; each is kept as its name.
\<close>

record runtime_context =
  context_id :: nat
  asset_store :: string
  asset_download_manager :: string
  context_file_system :: string
  registrations :: "string list"

definition register :: "string \<Rightarrow> runtime_context \<Rightarrow> runtime_context" where
  "register name context = context\<lparr>registrations := registrations context @ [name]\<rparr>"

text \<open>
  An entry point of the group \<^verbatim>\<open>fairseq2.extension\<close>: its value and what loading and
  calling it does to the context, with the exception it raises, if any.
\<close>

record entry_point =
  entry_value :: string
  extension :: "runtime_context \<Rightarrow> py_error option \<times> runtime_context"

fun run_extensions :: "bool \<Rightarrow> entry_point list \<Rightarrow> runtime_context \<Rightarrow> py_error + runtime_context" where
  "run_extensions should_trace [] context = Inr context"
| "run_extensions should_trace (ep # eps) context =
     (case extension ep context of
        (None, context1) \<Rightarrow> run_extensions should_trace eps context1
      | (Some (TypeError m), context1) \<Rightarrow>
          (if should_trace
           then Inl (ExtensionError (entry_value ep)
                  (''The '' @ [CHR 0x27] @ entry_value ep @ [CHR 0x27]
                     @ '' entry point is not a valid extension function.''))
           else run_extensions should_trace eps context1)
      | (Some ex, context1) \<Rightarrow>
          (if should_trace
           then Inl (ExtensionError (entry_value ep)
                  (''The '' @ [CHR 0x27] @ entry_value ep @ [CHR 0x27]
                     @ '' extension function has failed. See the nested exception for details.''))
           else run_extensions should_trace eps context1))"

text \<open>
  The state of the process: the module flag \<^verbatim>\<open>_setup_called\<close>, the process-wide
  context, whether \<^verbatim>\<open>FAIRSEQ2_EXTENSION_TRACE\<close> is in the environment, the installed
  entry points, and the number of contexts constructed so far.
\<close>

record process =
  setup_called :: bool
  default_context :: "runtime_context option"
  extension_trace :: bool
  entry_points :: "entry_point list"
  contexts_built :: nat

text \<open>
  Modelled from the spec: \<^verbatim>\<open>get_runtime_context\<close> and \<^verbatim>\<open>set_runtime_context\<close>
  are not among the sources. The spec speaks of one process-wide context initialised once;
  the pair is a process-wide cell that the setter writes and the getter reads, and a getter
  that finds the cell empty has no context to return and raises.
\<close>

definition get_runtime_context :: "process \<Rightarrow> py_error + runtime_context" where
  "get_runtime_context p =
     (case default_context p of
        None \<Rightarrow> Inl (RuntimeError ''fairseq2 is not initialized.'')
      | Some context \<Rightarrow> Inr context)"

definition set_runtime_context :: "runtime_context \<Rightarrow> process \<Rightarrow> process" where
  "set_runtime_context context p = p\<lparr>default_context := Some context\<rparr>"

definition setup_runtime_context :: "process \<Rightarrow> (py_error + runtime_context) \<times> process" where
  "setup_runtime_context p =
     (let context0 = \<lparr>context_id = contexts_built p,
                      asset_store = ''StandardAssetStore'',
                      asset_download_manager = ''InProcAssetDownloadManager'',
                      context_file_system = ''StandardFileSystem'',
                      registrations = []\<rparr>;
          p1 = p\<lparr>contexts_built := contexts_built p + 1\<rparr>;
          context1 = fold register
            [''_register_assets'', ''_register_beam_search_algorithms'', ''_register_chatbots'',
             ''_register_clusters'', ''_register_config_sections'', ''_register_datasets'',
             ''_register_lr_schedulers'', ''_register_metric_descriptors'',
             ''_register_metric_recorders'', ''_register_models'', ''_register_optimizers'',
             ''_register_recipes'', ''_register_samplers'', ''_register_seq2seq_generators'',
             ''_register_seq_generators'', ''_register_text_tokenizers''] context0
      in (run_extensions (extension_trace p1) (entry_points p1) context1, p1))"

definition setup_fairseq2 :: "process \<Rightarrow> (py_error + runtime_context) \<times> process" where
  "setup_fairseq2 p =
     (if setup_called p then (get_runtime_context p, p)
      else (let p1 = p\<lparr>setup_called := True\<rparr>
            in (case setup_runtime_context p1 of
                  (Inl e, p2) \<Rightarrow> (Inl e, p2)
                | (Inr context, p2) \<Rightarrow> (Inr context, set_runtime_context context p2))))"

text \<open>The process after \<open>n\<close> further calls of \<^verbatim>\<open>setup_fairseq2\<close>.\<close>

fun after_calls :: "nat \<Rightarrow> process \<Rightarrow> process" where
  "after_calls 0 p = p"
| "after_calls (Suc n) p = after_calls n (snd (setup_fairseq2 p))"

section \<open>Concrete inputs\<close>

text \<open>Inputs at which the theorems below are instantiated.\<close>

definition demo_gang :: "nat \<Rightarrow> gang" where
  "demo_gang r = \<lparr>rank = r, gang_size = 2, device = ''cuda''\<rparr>"

definition demo_gangs :: "nat \<Rightarrow> gangs" where
  "demo_gangs tp_rank = \<lparr>root = demo_gang 1, dp = demo_gang 1, tp = demo_gang tp_rank\<rparr>"

definition demo_direction :: direction where
  "demo_direction = \<lparr>source_lang = ''eng'', target_lang = ''deu'', direction_str = ''eng-deu''\<rparr>"

definition demo_generator :: seq2seq_generator where
  "demo_generator =
     \<lparr>generator_model = ''nllb'',
      batch_convert = (\<lambda>tokenizer task lang seqs mask. (map (\<lambda>s. ''Hallo'') seqs, seqs))\<rparr>"

definition demo_criterion :: mt_criterion where
  "demo_criterion =
     \<lparr>criterion_model = ''nllb'',
      criterion_call = (\<lambda>batch bag. update_batch_metrics [] (num_source_elements batch) bag)\<rparr>"

definition demo_stream :: "string \<Rightarrow> text_stream" where
  "demo_stream name = \<lparr>stream_name = name, durable = ''a'', pending = ''b''\<rparr>"

definition demo_batch :: "pyobj \<Rightarrow> seq2seq_batch" where
  "demo_batch ex =
     \<lparr>example = ex, source_seqs = [[1, 2]], source_padding_mask = None, num_source_elements = 2\<rparr>"

definition demo_example :: pyobj where
  "demo_example =
     PyDict [(''source_text'', PyList [PyStr ''Hello'']), (''target_text'', PyList [PyStr ''Hallo''])]"

definition demo_bag :: metric_bag where
  "demo_bag =
     \<lparr>bag_gang_rank = 1,
      metrics = [(''bleu'', \<lparr>metric_device = ''cuda'', persistent = False, updates = []\<rparr>),
                 (''chrf'', \<lparr>metric_device = ''cuda'', persistent = False, updates = []\<rparr>)],
      batch_metrics = []\<rparr>"

definition demo_unit :: "text_stream option \<Rightarrow> text_stream option \<Rightarrow> text_stream option \<Rightarrow> score_unit" where
  "demo_unit src_fp ref_fp hyp_fp =
     \<lparr>model = ''nllb'', display_name = ''score/eng-deu'',
      converter = (\<lambda>seqs mask. (map (\<lambda>s. ''Hallo'') seqs, seqs)),
      generator_calls = 0,
      src_output_stream = src_fp, ref_output_stream = ref_fp, hyp_output_stream = hyp_fp,
      score_metric_bag = demo_bag\<rparr>"

definition demo_config :: mt_eval_config where
  "demo_config =
     \<lparr>config_model = ''nllb'', config_seed = 2, dataset_split = ''test'',
      dataset_min_seq_len = 1, dataset_max_seq_len = 512, dataset_max_num_tokens = 4096,
      dataset_num_prefetch = 4, generator_batch_size = 8, evaluator_torch_compile = False\<rparr>"

definition demo_collaborators :: "nat \<Rightarrow> collaborators" where
  "demo_collaborators tp_rank =
     \<lparr>setup_gangs = demo_gangs tp_rank,
      directions = (\<lambda>split. [demo_direction]),
      load_text_tokenizer = ''nllb'',
      load_eval_model = ''nllb'',
      compile_eval_model = (\<lambda>m. m),
      create_seq2seq_generator = (\<lambda>m. demo_generator),
      MTCriterion = (\<lambda>m. demo_criterion)\<rparr>"

definition demo_output_dir :: path where
  "demo_output_dir = \<lparr>anchor = ''/'', parts = [''out'']\<rparr>"

definition demo_fs :: "path list \<Rightarrow> path list \<Rightarrow> file_system" where
  "demo_fs no_mkdir no_open =
     \<lparr>mkdir_denied = no_mkdir, open_denied = no_open, directories = [], files = []\<rparr>"

definition demo_process :: process where
  "demo_process =
     \<lparr>setup_called = False, default_context = None, extension_trace = False,
      entry_points = [\<lparr>entry_value = ''pkg:setup'', extension = (\<lambda>c. (None, register ''pkg'' c))\<rparr>],
      contexts_built = 0\<rparr>"

section \<open>Notions used in the statements\<close>

text \<open>
  The side-channel as the unit requires it: present, a mapping, with both keys and an
  iterable under each.
\<close>

definition side_channel_ok :: "seq2seq_batch \<Rightarrow> bool" where
  "side_channel_ok batch =
     (example batch \<noteq> PyNone \<and> is_mapping (example batch) \<and>
      (case getitem (example batch) ''source_text'' of None \<Rightarrow> False | Some srcs \<Rightarrow> is_iterable srcs) \<and>
      (case getitem (example batch) ''target_text'' of None \<Rightarrow> False | Some refs \<Rightarrow> is_iterable refs))"

text \<open>The lines a list of texts makes: each text followed by one newline.\<close>

definition text_lines :: "string list \<Rightarrow> string" where
  "text_lines ts = concat (map (\<lambda>t. t @ [CHR 0x0A]) ts)"

text \<open>A scoring unit as its constructor builds it, without output streams.\<close>

definition demo_score_unit :: score_unit where
  "demo_score_unit =
     projr (MTBleuChrfEvalUnit_init demo_direction demo_generator ''nllb'' (demo_gangs 0) None None None)"

text \<open>
  The files and directories set-up creates for a list of directions on a data-parallel
  rank, in the order of creation, and the stream a freshly opened file gives.
\<close>

definition output_files :: "path \<Rightarrow> nat \<Rightarrow> direction list \<Rightarrow> path list" where
  "output_files output_dir r ds =
     concat (map (\<lambda>d. [src_file output_dir d r, ref_file output_dir d r, hyp_file output_dir d r]) ds)"

definition output_dirs :: "path \<Rightarrow> nat \<Rightarrow> direction list \<Rightarrow> path list" where
  "output_dirs output_dir r ds = map (\<lambda>d. parent (src_file output_dir d r)) ds"

definition new_stream :: "path \<Rightarrow> text_stream option" where
  "new_stream p = Some \<lparr>stream_name = path_str p, durable = [], pending = []\<rparr>"

text \<open>
  The file system refuses one of the four operations set-up performs for a direction.
\<close>

definition denied_for :: "file_system \<Rightarrow> path \<Rightarrow> nat \<Rightarrow> direction \<Rightarrow> bool" where
  "denied_for fs output_dir r d =
     (parent (src_file output_dir d r) \<in> set (mkdir_denied fs) \<or>
      src_file output_dir d r \<in> set (open_denied fs) \<or>
      ref_file output_dir d r \<in> set (open_denied fs) \<or>
      hyp_file output_dir d r \<in> set (open_denied fs))"

text \<open>
  The streams of a list of units, unit by unit.
\<close>

definition all_streams :: "eval_unit list \<Rightarrow> text_stream option list" where
  "all_streams us = concat (map unit_streams us)"

text \<open>
  The seeds \<open>s\<close>, \<open>s + 1\<close>, ... handed out \<open>n\<close> times in a row.
\<close>

fun seeds_from :: "int \<Rightarrow> nat \<Rightarrow> int list" where
  "seeds_from s 0 = []"
| "seeds_from s (Suc n) = s # seeds_from (s + 1) n"

text \<open>
  The model the units are built on, and the state the loop over the directions ends in.
\<close>

definition loaded_model :: "collaborators \<Rightarrow> mt_eval_config \<Rightarrow> string" where
  "loaded_model ext config =
     (if evaluator_torch_compile config then compile_eval_model ext (load_eval_model ext)
      else load_eval_model ext)"

definition loaded_state :: "collaborators \<Rightarrow> file_system \<Rightarrow> mt_eval_config \<Rightarrow> path \<Rightarrow> py_error + loader_state" where
  "loaded_state ext fs config out =
     load_directions config out (setup_gangs ext) (load_text_tokenizer ext)
       (create_seq2seq_generator ext (loaded_model ext config)) (MTCriterion ext (loaded_model ext config))
       (directions ext (dataset_split config))
       \<lparr>st_seed = config_seed config + 1, st_units = [], st_readers = [], st_fs = fs\<rparr>"

section \<open>Construction of the units\<close>

text \<open>
  The scoring unit's constructor always succeeds: a fresh bag holds neither \<open>bleu\<close> nor
  \<open>chrf\<close>, so neither registration is a duplicate.
\<close>

lemma MTBleuChrfEvalUnit_init_Inr:
  "MTBleuChrfEvalUnit_init d g tok gs sfp rfp hfp =
     Inr \<lparr>model = generator_model g,
          display_name = ''score/'' @ direction_str d,
          converter = batch_convert g tok ''translation'' (target_lang d),
          generator_calls = 0,
          src_output_stream = sfp, ref_output_stream = rfp, hyp_output_stream = hfp,
          score_metric_bag =
            \<lparr>bag_gang_rank = rank (dp gs),
             metrics = [(''bleu'', \<lparr>metric_device = device (root gs), persistent = False, updates = []\<rparr>),
                        (''chrf'', \<lparr>metric_device = device (root gs), persistent = False, updates = []\<rparr>)],
             batch_metrics = []\<rparr>\<rparr>"
  by (simp add: MTBleuChrfEvalUnit_init_def Seq2SeqGenerationMetricBag_def register_metric_def
      BleuMetric_def ChrfMetric_def Let_def)

text \<open>
  C7. For every direction, the loss unit's display name is \<open>loss/\<close> followed by the
  direction and the scoring unit's is \<open>score/\<close> followed by the direction.
\<close>

theorem display_name_direction:
  "display_name (MTLossEvalUnit_init c d gs) = ''loss/'' @ direction_str d \<and>
   (\<exists>u. MTBleuChrfEvalUnit_init d g tok gs sfp rfp hfp = Inr u \<and>
        display_name u = ''score/'' @ direction_str d)"
  by (simp add: MTLossEvalUnit_init_def MTBleuChrfEvalUnit_init_Inr)

theorem display_name_direction_witness:
  "display_name (MTLossEvalUnit_init demo_criterion demo_direction (demo_gangs 0)) = ''loss/eng-deu'' \<and>
   display_name (projr (MTBleuChrfEvalUnit_init demo_direction demo_generator ''nllb'' (demo_gangs 0) None None None))
     = ''score/eng-deu''"
  using display_name_direction [of demo_criterion demo_direction "demo_gangs 0" demo_generator "''nllb''" None None None]
  by (auto simp: demo_direction_def)

section \<open>The loss unit's call\<close>

text \<open>
  C6. A call of the loss unit changes nothing of the unit but its metric bag, which becomes
  what the criterion makes of it; the unit holds no output stream before or after.
\<close>

theorem loss_unit_call_frame:
  "model (MTLossEvalUnit_call self batch) = model self \<and>
   display_name (MTLossEvalUnit_call self batch) = display_name self \<and>
   criterion (MTLossEvalUnit_call self batch) = criterion self \<and>
   loss_metric_bag (MTLossEvalUnit_call self batch)
     = criterion_call (criterion self) batch (loss_metric_bag self) \<and>
   unit_streams (LossUnit (MTLossEvalUnit_call self batch)) = []"
  by (simp add: MTLossEvalUnit_call_def)

theorem loss_unit_call_frame_witness:
  "display_name (MTLossEvalUnit_call (MTLossEvalUnit_init demo_criterion demo_direction (demo_gangs 0))
      (demo_batch demo_example)) = ''loss/eng-deu'' \<and>
   batch_metrics (loss_metric_bag (MTLossEvalUnit_call (MTLossEvalUnit_init demo_criterion demo_direction (demo_gangs 0))
      (demo_batch demo_example))) = [([], 2)]"
  using loss_unit_call_frame [of "MTLossEvalUnit_init demo_criterion demo_direction (demo_gangs 0)" "demo_batch demo_example"]
  by (simp add: MTLossEvalUnit_init_def demo_criterion_def demo_direction_def demo_batch_def
      update_batch_metrics_def Seq2SeqMetricBag_def)

section \<open>The scoring unit's call\<close>

subsection \<open>Metric updates, the write loop and the dump blocks\<close>

lemma map_of_map_entry:
  "map_of (map (\<lambda>e. if fst e = n then (fst e, f (snd e)) else e) xs) k =
     (case map_of xs k of None \<Rightarrow> None | Some m \<Rightarrow> Some (if k = n then f m else m))"
  by (induction xs) auto

lemma metric_update_lookup:
  assumes "metric_update name refs hyps bag = Inr bag'"
  shows "map_of (metrics bag') k =
     (case map_of (metrics bag) k of None \<Rightarrow> None
      | Some m \<Rightarrow> Some (if k = name then m\<lparr>updates := updates m @ [(refs, hyps)]\<rparr> else m))"
  using assms
    map_of_map_entry [where f = "\<lambda>m. m\<lparr>updates := updates m @ [(refs, hyps)]\<rparr>" and n = name and xs = "metrics bag" and k = k]
  by (auto simp: metric_update_def split: option.splits)

lemma metric_update_registered:
  assumes "map_of (metrics bag) name \<noteq> None"
  shows "\<exists>bag'. metric_update name refs hyps bag = Inr bag'"
  using assms by (auto simp: metric_update_def split: option.splits)

lemma metric_update_frame:
  assumes "metric_update name refs hyps bag = Inr bag'"
  shows "map (\<lambda>e. (fst e, persistent (snd e))) (metrics bag') = map (\<lambda>e. (fst e, persistent (snd e))) (metrics bag)"
    and "batch_metrics bag' = batch_metrics bag"
    and "bag_gang_rank bag' = bag_gang_rank bag"
  using assms by (auto simp: metric_update_def split: option.splits)

lemma flags_map_entry:
  "map (\<lambda>e. (fst e, persistent (snd e)))
     (map (\<lambda>e. if fst e = n then (fst e, (snd e)\<lparr>updates := updates (snd e) @ [(r, h)]\<rparr>) else e) xs)
   = map (\<lambda>e. (fst e, persistent (snd e))) xs"
  by (induction xs) auto

lemma metric_update_flags:
  "metric_update n r h bag = Inr bag' \<Longrightarrow>
   map (\<lambda>e. (fst e, persistent (snd e))) (metrics bag') = map (\<lambda>e. (fst e, persistent (snd e))) (metrics bag)"
  by (auto simp: metric_update_def flags_map_entry split: option.splits)

lemma write_lines_strings:
  "write_lines stream (map PyStr ts) = (None, stream\<lparr>pending := pending stream @ text_lines ts\<rparr>)"
  by (induction ts arbitrary: stream) (simp_all add: text_lines_def stream_write_def)

lemma dump_strings:
  "dump (Some stream) (map PyStr ts) =
     (None, Some \<lparr>stream_name = stream_name stream,
                  durable = durable stream @ pending stream @ text_lines ts,
                  pending = []\<rparr>)"
  by (simp add: dump_def write_lines_strings stream_flush_def)

lemma dump_None: "dump None xs = (None, None)"
  by (simp add: dump_def)

subsection \<open>The messages name the keys\<close>

lemma sub_src1: "sublist ''source_text'' ''`batch.example` must contain a 'source_text' item.''"
  by code_simp

lemma sub_tgt1: "sublist ''target_text'' ''`batch.example` must contain a 'target_text' item.''"
  by code_simp

lemma sub_src2: "sublist ''source_text'' ''`batch.example['source_text'] must be an iterable of strings, but is of type `''"
  by code_simp

lemma sub_tgt2: "sublist ''target_text'' ''`batch.example['target_text'] must be an iterable of strings, but is of type `''"
  by code_simp

lemma sub_exp_src: "sublist ''an iterable of strings'' ''`batch.example['source_text'] must be an iterable of strings, but is of type `''"
  by code_simp

lemma sub_exp_tgt: "sublist ''an iterable of strings'' ''`batch.example['target_text'] must be an iterable of strings, but is of type `''"
  by code_simp

lemma sublist_in_prefix: "sublist xs ys \<Longrightarrow> sublist xs (ys @ zs)"
  by (auto simp: sublist_def) (metis append.assoc)

lemma sublist_in_middle: "sublist xs (ps @ xs @ ss)"
  by (rule sublist_appendI)

subsection \<open>A call whose side-channel passes the checks\<close>

lemma call_valid:
  assumes ex: "getitem (example batch) ''source_text'' = Some srcs"
              "getitem (example batch) ''target_text'' = Some refs"
              "is_iterable srcs" "is_iterable refs"
    and bleu: "metric_update ''bleu'' refs (fst (converter self (source_seqs batch) (source_padding_mask batch)))
                 (score_metric_bag self) = Inr bag1"
    and chrf: "metric_update ''chrf'' refs (fst (converter self (source_seqs batch) (source_padding_mask batch)))
                 bag1 = Inr bag2"
    and d1: "dump (src_output_stream self) (iter_items srcs) = (None, fp1)"
    and d2: "dump (ref_output_stream self) (iter_items refs) = (None, fp2)"
    and d3: "dump (hyp_output_stream self)
               (map PyStr (fst (converter self (source_seqs batch) (source_padding_mask batch)))) = (e3, fp3)"
  shows "MTBleuChrfEvalUnit_call self batch =
     (e3, self\<lparr>generator_calls := generator_calls self + 1,
               score_metric_bag := update_batch_metrics
                  (snd (converter self (source_seqs batch) (source_padding_mask batch)))
                  (num_source_elements batch) bag2,
               src_output_stream := fp1, ref_output_stream := fp2, hyp_output_stream := fp3\<rparr>)"
proof -
  have m: "is_mapping (example batch)" "example batch \<noteq> PyNone"
    using ex(1) by (cases "example batch"; simp)+
  show ?thesis
    using ex m bleu chrf d1 d2 d3
    by (simp add: MTBleuChrfEvalUnit_call_def Let_def split_beta)
qed

lemma call_invalid_unchanged:
  "\<not> side_channel_ok batch \<Longrightarrow> snd (MTBleuChrfEvalUnit_call self batch) = self"
  by (auto simp: MTBleuChrfEvalUnit_call_def side_channel_ok_def split: option.splits)

lemma call_bag_cases:
  "score_metric_bag (snd (MTBleuChrfEvalUnit_call self batch)) = score_metric_bag self \<or>
   (\<exists>r h bag1. metric_update ''bleu'' r h (score_metric_bag self) = Inr bag1 \<and>
      (score_metric_bag (snd (MTBleuChrfEvalUnit_call self batch)) = bag1 \<or>
       (\<exists>bag2 out n. metric_update ''chrf'' r h bag1 = Inr bag2 \<and>
          score_metric_bag (snd (MTBleuChrfEvalUnit_call self batch)) = update_batch_metrics out n bag2)))"
proof (cases "side_channel_ok batch")
  case False
  then show ?thesis by (simp add: call_invalid_unchanged)
next
  case True
  then obtain srcs refs where ex: "getitem (example batch) ''source_text'' = Some srcs"
      "getitem (example batch) ''target_text'' = Some refs" "is_iterable srcs" "is_iterable refs"
      "example batch \<noteq> PyNone" "is_mapping (example batch)"
    by (auto simp: side_channel_ok_def split: option.splits)
  let ?h = "fst (converter self (source_seqs batch) (source_padding_mask batch))"
  show ?thesis
  proof (cases "metric_update ''bleu'' refs ?h (score_metric_bag self)")
    case (Inl e)
    then show ?thesis using ex by (simp add: MTBleuChrfEvalUnit_call_def Let_def split_beta)
  next
    case b1: (Inr bag1)
    show ?thesis
    proof (cases "metric_update ''chrf'' refs ?h bag1")
      case (Inl e)
      then show ?thesis using ex b1 by (auto simp: MTBleuChrfEvalUnit_call_def Let_def split_beta)
    next
      case b2: (Inr bag2)
      have "score_metric_bag (snd (MTBleuChrfEvalUnit_call self batch)) =
          update_batch_metrics (snd (converter self (source_seqs batch) (source_padding_mask batch)))
            (num_source_elements batch) bag2"
        using ex b1 b2
        by (simp add: MTBleuChrfEvalUnit_call_def Let_def split_beta split: prod.splits option.splits)
      then show ?thesis using b1 b2 by blast
    qed
  qed
qed

lemma call_keeps_flags:
  "map (\<lambda>e. (fst e, persistent (snd e))) (metrics (score_metric_bag (snd (MTBleuChrfEvalUnit_call self batch))))
     = map (\<lambda>e. (fst e, persistent (snd e))) (metrics (score_metric_bag self))"
  using call_bag_cases [of self batch]
  by (auto simp: update_batch_metrics_def dest!: metric_update_flags)

lemma reset_clears_non_persistent:
  assumes "list_all (\<lambda>e. \<not> persistent (snd e)) (metrics bag)"
  shows "list_all (\<lambda>e. updates (snd e) = []) (metrics (reset_non_persistent_metrics bag))"
  using assms by (auto simp: reset_non_persistent_metrics_def list_all_iff)

subsection \<open>Errors of the side-channel\<close>

text \<open>
  C1, as amended. The checks run in the order: \<open>source_text\<close> present,
  \<open>source_text\<close> iterable, \<open>target_text\<close> present, \<open>target_text\<close> iterable, and the
  first that fails decides the error. For a side-channel that is a mapping: a missing
  \<open>source_text\<close> raises a \<open>ValueError\<close> naming it; a \<open>source_text\<close> that is not iterable
  raises a \<open>TypeError\<close> naming it, the expected shape and the actual type; with an
  iterable \<open>source_text\<close>, a missing \<open>target_text\<close> raises a \<open>ValueError\<close> naming
  \<open>target_text\<close> and a \<open>target_text\<close> that is not iterable a \<open>TypeError\<close> naming it,
  the expected shape and the actual type. The unit is unchanged in each case.
\<close>

theorem side_channel_errors_in_order:
  assumes "example batch = PyDict kvs"
  shows
    "(map_of kvs ''source_text'' = None \<longrightarrow>
        (\<exists>m. MTBleuChrfEvalUnit_call self batch = (Some (ValueError m), self) \<and> sublist ''source_text'' m)) \<and>
     (\<forall>v. map_of kvs ''source_text'' = Some v \<and> \<not> is_iterable v \<longrightarrow>
        (\<exists>m. MTBleuChrfEvalUnit_call self batch = (Some (TypeError m), self) \<and> sublist ''source_text'' m \<and>
             sublist ''an iterable of strings'' m \<and> sublist (type_repr v) m)) \<and>
     (\<forall>v. map_of kvs ''source_text'' = Some v \<and> is_iterable v \<and> map_of kvs ''target_text'' = None \<longrightarrow>
        (\<exists>m. MTBleuChrfEvalUnit_call self batch = (Some (ValueError m), self) \<and> sublist ''target_text'' m)) \<and>
     (\<forall>v w. map_of kvs ''source_text'' = Some v \<and> is_iterable v \<and>
            map_of kvs ''target_text'' = Some w \<and> \<not> is_iterable w \<longrightarrow>
        (\<exists>m. MTBleuChrfEvalUnit_call self batch = (Some (TypeError m), self) \<and> sublist ''target_text'' m \<and>
             sublist ''an iterable of strings'' m \<and> sublist (type_repr w) m))"
proof (intro conjI allI impI)
  assume "map_of kvs ''source_text'' = None"
  then have "MTBleuChrfEvalUnit_call self batch =
      (Some (ValueError ''`batch.example` must contain a 'source_text' item.''), self)"
    using assms by (simp add: MTBleuChrfEvalUnit_call_def)
  then show "\<exists>m. MTBleuChrfEvalUnit_call self batch = (Some (ValueError m), self) \<and> sublist ''source_text'' m"
    using sub_src1 by blast
next
  fix v assume "map_of kvs ''source_text'' = Some v \<and> \<not> is_iterable v"
  then have "MTBleuChrfEvalUnit_call self batch =
      (Some (TypeError (''`batch.example['source_text'] must be an iterable of strings, but is of type `''
         @ type_repr v @ ''` instead.'')), self)"
    using assms by (simp add: MTBleuChrfEvalUnit_call_def)
  then show "\<exists>m. MTBleuChrfEvalUnit_call self batch = (Some (TypeError m), self) \<and> sublist ''source_text'' m \<and>
             sublist ''an iterable of strings'' m \<and> sublist (type_repr v) m"
    using sublist_in_prefix [OF sub_src2] sublist_in_prefix [OF sub_exp_src] sublist_in_middle by blast
next
  fix v assume "map_of kvs ''source_text'' = Some v \<and> is_iterable v \<and> map_of kvs ''target_text'' = None"
  then have "MTBleuChrfEvalUnit_call self batch =
      (Some (ValueError ''`batch.example` must contain a 'target_text' item.''), self)"
    using assms by (simp add: MTBleuChrfEvalUnit_call_def)
  then show "\<exists>m. MTBleuChrfEvalUnit_call self batch = (Some (ValueError m), self) \<and> sublist ''target_text'' m"
    using sub_tgt1 by blast
next
  fix v w assume "map_of kvs ''source_text'' = Some v \<and> is_iterable v \<and>
            map_of kvs ''target_text'' = Some w \<and> \<not> is_iterable w"
  then have "MTBleuChrfEvalUnit_call self batch =
      (Some (TypeError (''`batch.example['target_text'] must be an iterable of strings, but is of type `''
         @ type_repr w @ ''` instead.'')), self)"
    using assms by (simp add: MTBleuChrfEvalUnit_call_def)
  then show "\<exists>m. MTBleuChrfEvalUnit_call self batch = (Some (TypeError m), self) \<and> sublist ''target_text'' m \<and>
             sublist ''an iterable of strings'' m \<and> sublist (type_repr w) m"
    using sublist_in_prefix [OF sub_tgt2] sublist_in_prefix [OF sub_exp_tgt] sublist_in_middle by blast
qed

theorem side_channel_errors_in_order_witness:
  "MTBleuChrfEvalUnit_call (demo_unit None None None)
      (demo_batch (PyDict [(''source_text'', PyList [PyStr ''Hello''])]))
     = (Some (ValueError ''`batch.example` must contain a 'target_text' item.''), demo_unit None None None) \<and>
   fst (MTBleuChrfEvalUnit_call (demo_unit None None None)
      (demo_batch (PyDict [(''source_text'', PyList []), (''target_text'', PyInt 3)])))
     = Some (TypeError ''`batch.example['target_text'] must be an iterable of strings, but is of type `<class 'int'>` instead.'')"
  using side_channel_errors_in_order [of "demo_batch (PyDict [(''source_text'', PyList [PyStr ''Hello''])])"
      "[(''source_text'', PyList [PyStr ''Hello''])]" "demo_unit None None None"]
    side_channel_errors_in_order [of "demo_batch (PyDict [(''source_text'', PyList []), (''target_text'', PyInt 3)])"
      "[(''source_text'', PyList []), (''target_text'', PyInt 3)]" "demo_unit None None None"]
  by (simp add: demo_batch_def MTBleuChrfEvalUnit_call_def type_repr_def)

text \<open>
  C1 as stated fails: a side-channel that lacks \<open>target_text\<close> and holds an integer
  under \<open>source_text\<close> raises a \<open>TypeError\<close> about \<open>source_text\<close>, not a
  \<open>ValueError\<close> naming \<open>target_text\<close>.
\<close>

theorem missing_target_text_counterexample:
  "example (demo_batch (PyDict [(''source_text'', PyInt 5)])) = PyDict [(''source_text'', PyInt 5)] \<and>
   getitem (PyDict [(''source_text'', PyInt 5)]) ''target_text'' = None \<and>
   fst (MTBleuChrfEvalUnit_call (demo_unit None None None) (demo_batch (PyDict [(''source_text'', PyInt 5)])))
     = Some (TypeError ''`batch.example['source_text'] must be an iterable of strings, but is of type `<class 'int'>` instead.'')"
  by (simp add: MTBleuChrfEvalUnit_call_def demo_batch_def type_repr_def)

text \<open>
  C8. Validation comes before every effect: when the side-channel fails a check, the call
  raises a \<open>ValueError\<close> or a \<open>TypeError\<close> and returns the unit exactly as it was (no
  generator call, no metric update, no write); when it passes them all, the generator is
  invoked.
\<close>

theorem validation_before_effects:
  "(\<not> side_channel_ok batch \<longrightarrow>
      (\<exists>m. MTBleuChrfEvalUnit_call self batch = (Some (ValueError m), self) \<or>
           MTBleuChrfEvalUnit_call self batch = (Some (TypeError m), self))) \<and>
   (side_channel_ok batch \<longrightarrow>
      generator_calls (snd (MTBleuChrfEvalUnit_call self batch)) = generator_calls self + 1)"
  by (auto simp: MTBleuChrfEvalUnit_call_def side_channel_ok_def Let_def split_beta
      split: option.splits sum.splits prod.splits)

theorem validation_before_effects_witness:
  "\<not> side_channel_ok (demo_batch (PyDict [(''source_text'', PyInt 5)])) \<and>
   snd (MTBleuChrfEvalUnit_call (demo_unit None None None) (demo_batch (PyDict [(''source_text'', PyInt 5)])))
     = demo_unit None None None \<and>
   side_channel_ok (demo_batch demo_example) \<and>
   generator_calls (snd (MTBleuChrfEvalUnit_call (demo_unit None None None) (demo_batch demo_example))) = 1"
  using validation_before_effects [of "demo_batch (PyDict [(''source_text'', PyInt 5)])" "demo_unit None None None"]
    validation_before_effects [of "demo_batch demo_example" "demo_unit None None None"]
  by (auto simp: side_channel_ok_def demo_batch_def demo_example_def demo_unit_def)

subsection \<open>Output lines\<close>

text \<open>
  C3. For a batch whose side-channel holds lists of strings under both keys, on a unit
  with the two scoring metrics registered and all three streams open, the call raises
  nothing and leaves each stream flushed, holding what it held before followed by one
  line per source text, reference and hypothesis respectively.
\<close>

theorem call_appends_lines_and_flushes:
  assumes ex: "example batch = PyDict kvs"
      "map_of kvs ''source_text'' = Some (PyList (map PyStr srcs))"
      "map_of kvs ''target_text'' = Some (PyList (map PyStr refs))"
    and reg: "map_of (metrics (score_metric_bag self)) ''bleu'' \<noteq> None"
      "map_of (metrics (score_metric_bag self)) ''chrf'' \<noteq> None"
    and streams: "src_output_stream self = Some s1" "ref_output_stream self = Some s2"
      "hyp_output_stream self = Some s3"
  shows "\<exists>self'. MTBleuChrfEvalUnit_call self batch = (None, self') \<and>
      src_output_stream self' = Some \<lparr>stream_name = stream_name s1,
         durable = durable s1 @ pending s1 @ text_lines srcs, pending = []\<rparr> \<and>
      ref_output_stream self' = Some \<lparr>stream_name = stream_name s2,
         durable = durable s2 @ pending s2 @ text_lines refs, pending = []\<rparr> \<and>
      hyp_output_stream self' = Some \<lparr>stream_name = stream_name s3,
         durable = durable s3 @ pending s3
           @ text_lines (fst (converter self (source_seqs batch) (source_padding_mask batch))),
         pending = []\<rparr>"
proof -
  let ?hyps = "fst (converter self (source_seqs batch) (source_padding_mask batch))"
  obtain bag1 where b1: "metric_update ''bleu'' (PyList (map PyStr refs)) ?hyps (score_metric_bag self) = Inr bag1"
    using metric_update_registered [OF reg(1)] by blast
  have "map_of (metrics bag1) ''chrf'' \<noteq> None"
    using metric_update_lookup [OF b1, of "''chrf''"] reg(2) by (auto split: option.splits)
  then obtain bag2 where b2: "metric_update ''chrf'' (PyList (map PyStr refs)) ?hyps bag1 = Inr bag2"
    using metric_update_registered by blast
  have g: "getitem (example batch) ''source_text'' = Some (PyList (map PyStr srcs))"
      "getitem (example batch) ''target_text'' = Some (PyList (map PyStr refs))"
    using ex by simp_all
  have "MTBleuChrfEvalUnit_call self batch =
     (None, self\<lparr>generator_calls := generator_calls self + 1,
               score_metric_bag := update_batch_metrics
                  (snd (converter self (source_seqs batch) (source_padding_mask batch)))
                  (num_source_elements batch) bag2,
               src_output_stream := Some \<lparr>stream_name = stream_name s1,
                  durable = durable s1 @ pending s1 @ text_lines srcs, pending = []\<rparr>,
               ref_output_stream := Some \<lparr>stream_name = stream_name s2,
                  durable = durable s2 @ pending s2 @ text_lines refs, pending = []\<rparr>,
               hyp_output_stream := Some \<lparr>stream_name = stream_name s3,
                  durable = durable s3 @ pending s3 @ text_lines ?hyps, pending = []\<rparr>\<rparr>)"
    by (rule call_valid [OF g _ _ b1 b2]) (simp_all add: streams dump_strings)
  then show ?thesis by simp
qed

theorem call_appends_lines_and_flushes_witness:
  "fst (MTBleuChrfEvalUnit_call
        (demo_unit (Some (demo_stream ''s'')) (Some (demo_stream ''r'')) (Some (demo_stream ''h'')))
        (demo_batch demo_example)) = None \<and>
   src_output_stream (snd (MTBleuChrfEvalUnit_call
        (demo_unit (Some (demo_stream ''s'')) (Some (demo_stream ''r'')) (Some (demo_stream ''h'')))
        (demo_batch demo_example)))
     = Some \<lparr>stream_name = ''s'', durable = ''abHello'' @ [CHR 0x0A], pending = []\<rparr> \<and>
   hyp_output_stream (snd (MTBleuChrfEvalUnit_call
        (demo_unit (Some (demo_stream ''s'')) (Some (demo_stream ''r'')) (Some (demo_stream ''h'')))
        (demo_batch demo_example)))
     = Some \<lparr>stream_name = ''h'', durable = ''abHallo'' @ [CHR 0x0A], pending = []\<rparr>"
  using call_appends_lines_and_flushes [of "demo_batch demo_example"
      "[(''source_text'', PyList [PyStr ''Hello'']), (''target_text'', PyList [PyStr ''Hallo''])]"
      "[''Hello'']" "[''Hallo'']"
      "demo_unit (Some (demo_stream ''s'')) (Some (demo_stream ''r'')) (Some (demo_stream ''h''))"
      "demo_stream ''s''" "demo_stream ''r''" "demo_stream ''h''"]
  by (auto simp: demo_batch_def demo_example_def demo_unit_def demo_bag_def demo_stream_def text_lines_def)

subsection \<open>Persistence of the scoring metrics\<close>

text \<open>
  C2, as amended. The constructor registers \<open>bleu\<close> and \<open>chrf\<close> with
  \<open>persistent = False\<close>; whatever a call accumulates in them is cleared when the
  non-persistent metrics are reset.
\<close>

theorem scoring_metrics_not_persistent:
  "\<exists>u. MTBleuChrfEvalUnit_init d g tok gs sfp rfp hfp = Inr u \<and>
       map (\<lambda>e. (fst e, persistent (snd e))) (metrics (score_metric_bag u))
         = [(''bleu'', False), (''chrf'', False)] \<and>
       (\<forall>batch. list_all (\<lambda>e. updates (snd e) = [])
          (metrics (reset_non_persistent_metrics (score_metric_bag (snd (MTBleuChrfEvalUnit_call u batch))))))"
proof -
  obtain u where u: "MTBleuChrfEvalUnit_init d g tok gs sfp rfp hfp = Inr u"
    and f: "map (\<lambda>e. (fst e, persistent (snd e))) (metrics (score_metric_bag u))
         = [(''bleu'', False), (''chrf'', False)]"
    by (simp add: MTBleuChrfEvalUnit_init_Inr)
  have r: "list_all (\<lambda>e. updates (snd e) = [])
          (metrics (reset_non_persistent_metrics (score_metric_bag (snd (MTBleuChrfEvalUnit_call u batch)))))"
    for batch
  proof (rule reset_clears_non_persistent)
    have "map (\<lambda>e. (fst e, persistent (snd e)))
            (metrics (score_metric_bag (snd (MTBleuChrfEvalUnit_call u batch))))
          = [(''bleu'', False), (''chrf'', False)]"
      using call_keeps_flags [of u batch] f by simp
    then have "map (\<lambda>e. persistent (snd e))
            (metrics (score_metric_bag (snd (MTBleuChrfEvalUnit_call u batch)))) = [False, False]"
      by (auto simp: map_eq_Cons_conv)
    then show "list_all (\<lambda>e. \<not> persistent (snd e))
            (metrics (score_metric_bag (snd (MTBleuChrfEvalUnit_call u batch))))"
      by (auto simp: list_all_iff map_eq_Cons_conv)
  qed
  show ?thesis using u f r by (intro exI [of _ u]) simp
qed

theorem scoring_metrics_not_persistent_witness:
  "map fst (metrics (score_metric_bag demo_score_unit)) = [''bleu'', ''chrf''] \<and>
   map_of (metrics (reset_non_persistent_metrics
       (score_metric_bag (snd (MTBleuChrfEvalUnit_call demo_score_unit (demo_batch demo_example)))))) ''bleu''
     = Some \<lparr>metric_device = ''cuda'', persistent = False, updates = []\<rparr>"
  using scoring_metrics_not_persistent [of demo_direction demo_generator "''nllb''" "demo_gangs 0" None None None]
  unfolding demo_score_unit_def
  by (simp add: MTBleuChrfEvalUnit_init_Inr MTBleuChrfEvalUnit_call_def demo_batch_def demo_example_def
      demo_generator_def demo_gangs_def demo_gang_def metric_update_def update_batch_metrics_def
      reset_non_persistent_metrics_def dump_def)

text \<open>
  C2 as stated fails: the two metrics of a constructed unit are not persistent, and the
  update a call made to \<open>bleu\<close> is gone after the reset.
\<close>

theorem scoring_metrics_persistent_counterexample:
  "persistent (the (map_of (metrics (score_metric_bag demo_score_unit)) ''bleu'')) = False \<and>
   persistent (the (map_of (metrics (score_metric_bag demo_score_unit)) ''chrf'')) = False \<and>
   updates (the (map_of (metrics (score_metric_bag
       (snd (MTBleuChrfEvalUnit_call demo_score_unit (demo_batch demo_example))))) ''bleu''))
     = [(PyList [PyStr ''Hallo''], [''Hallo''])] \<and>
   updates (the (map_of (metrics (reset_non_persistent_metrics (score_metric_bag
       (snd (MTBleuChrfEvalUnit_call demo_score_unit (demo_batch demo_example)))))) ''bleu'')) = []"
  unfolding demo_score_unit_def
  by (simp add: MTBleuChrfEvalUnit_init_Inr MTBleuChrfEvalUnit_call_def demo_batch_def demo_example_def
      demo_generator_def demo_gangs_def demo_gang_def metric_update_def update_batch_metrics_def
      reset_non_persistent_metrics_def dump_def)

section \<open>Loading the evaluator: paths\<close>

lemma split_sep_nonempty: "split_sep s \<noteq> []"
  by (induction s) (auto split: list.splits)

lemma split_sep_no_sep: "CHR ''/'' \<notin> set s \<Longrightarrow> split_sep s = [s]"
  by (induction s) auto

lemma split_sep_at_sep: "split_sep (xs @ CHR ''/'' # ys) = split_sep xs @ split_sep ys"
proof (induction xs)
  case Nil
  then show ?case by simp
next
  case (Cons x xs)
  then show ?case using split_sep_nonempty [of xs]
    by (cases "split_sep xs") auto
qed

lemma digit_not_sep: "char_of (48 + k :: nat) \<noteq> CHR ''/''" if "k < 10"
proof
  assume "char_of (48 + k) = CHR ''/''"
  then have "(of_char (char_of (48 + k)) :: nat) = of_char (CHR ''/'')" by simp
  then show False using that by simp
qed

lemma str_nat_no_sep: "CHR ''/'' \<notin> set (str_nat n)"
proof (induction n rule: str_nat.induct)
  case (1 n)
  show ?case
  proof (cases "n < 10")
    case True
    then show ?thesis using digit_not_sep [of n] by (subst str_nat.simps) simp
  next
    case False
    have "n mod 10 < 10" by simp
    then have "char_of (48 + n mod 10) \<noteq> CHR ''/''" by (rule digit_not_sep)
    then show ?thesis using False "1.IH" by (subst str_nat.simps) simp
  qed
qed

lemma output_file_parts:
  assumes "CHR ''/'' \<notin> set (direction_str d)" "direction_str d \<noteq> []" "direction_str d \<noteq> ''.''"
    and "CHR ''/'' \<notin> set ext"
  shows "joinpath out (''translations/'' @ direction_str d @ ''/rank_'' @ str_nat r @ ext)
     = \<lparr>anchor = anchor out,
        parts = parts out @ [''translations'', direction_str d, ''rank_'' @ str_nat r @ ext]\<rparr>"
proof -
  have e: "''translations/'' @ direction_str d @ ''/rank_'' @ str_nat r @ ext
      = ''translations'' @ CHR ''/'' # (direction_str d @ CHR ''/'' # (''rank_'' @ str_nat r @ ext))"
    by simp
  have n: "CHR ''/'' \<notin> set (''rank_'' @ str_nat r @ ext)"
    using assms(4) str_nat_no_sep by simp
  have "split_sep (''translations/'' @ direction_str d @ ''/rank_'' @ str_nat r @ ext)
      = [''translations'', direction_str d, ''rank_'' @ str_nat r @ ext]"
    unfolding e split_sep_at_sep
    using split_sep_no_sep [OF assms(1)] split_sep_no_sep [OF n] by simp
  then show ?thesis using assms(2,3)
    by (simp add: joinpath_def path_parts_def)
qed

text \<open>
  For a direction whose text is one path component, the three files lie in
  \<open>translations/<direction>\<close> under the output directory and are named
  \<open>rank_<r>.src.txt\<close>, \<open>rank_<r>.ref.txt\<close> and \<open>rank_<r>.hyp.txt\<close>.
\<close>

lemma src_file_parts:
  assumes "CHR ''/'' \<notin> set (direction_str d)" "direction_str d \<noteq> []" "direction_str d \<noteq> ''.''"
  shows "src_file out d r = \<lparr>anchor = anchor out,
           parts = parts out @ [''translations'', direction_str d, ''rank_'' @ str_nat r @ ''.src.txt'']\<rparr>"
    and "ref_file out d r = \<lparr>anchor = anchor out,
           parts = parts out @ [''translations'', direction_str d, ''rank_'' @ str_nat r @ ''.ref.txt'']\<rparr>"
    and "hyp_file out d r = \<lparr>anchor = anchor out,
           parts = parts out @ [''translations'', direction_str d, ''rank_'' @ str_nat r @ ''.hyp.txt'']\<rparr>"
    and "parent (src_file out d r) = \<lparr>anchor = anchor out,
           parts = parts out @ [''translations'', direction_str d]\<rparr>"
  using output_file_parts [OF assms, of "''.src.txt''" out r] output_file_parts [OF assms, of "''.ref.txt''" out r]
    output_file_parts [OF assms, of "''.hyp.txt''" out r]
  by (simp_all add: src_file_def ref_file_def hyp_file_def parent_def butlast_append)

section \<open>Loading the evaluator: one direction\<close>

lemma open_output_streams_cases:
  "open_output_streams fs out d r =
     (if parent (src_file out d r) \<in> set (mkdir_denied fs) then Inl (directory_error (parent (src_file out d r)))
      else if src_file out d r \<in> set (open_denied fs) then Inl (file_error (src_file out d r))
      else if ref_file out d r \<in> set (open_denied fs) then Inl (file_error (ref_file out d r))
      else if hyp_file out d r \<in> set (open_denied fs) then Inl (file_error (hyp_file out d r))
      else Inr ((\<lparr>stream_name = path_str (src_file out d r), durable = [], pending = []\<rparr>,
                 \<lparr>stream_name = path_str (ref_file out d r), durable = [], pending = []\<rparr>,
                 \<lparr>stream_name = path_str (hyp_file out d r), durable = [], pending = []\<rparr>),
                fs\<lparr>directories := directories fs @ [parent (src_file out d r)],
                   files := files fs @ [src_file out d r, ref_file out d r, hyp_file out d r]\<rparr>))"
  by (simp add: open_output_streams_def make_directory_def open_text_def)

lemma load_direction_tp0:
  assumes "rank (tp gs) = 0"
  shows "load_direction config out gs tok g c d st =
     (case open_output_streams (st_fs st) out d (rank (dp gs)) of
        Inl e \<Rightarrow> Inl e
      | Inr ((s1, s2, s3), fs1) \<Rightarrow>
          Inr \<lparr>st_seed = st_seed st + 2,
               st_units = st_units st @ [LossUnit (MTLossEvalUnit_init c d gs),
                  ScoreUnit (projr (MTBleuChrfEvalUnit_init d g tok gs (Some s1) (Some s2) (Some s3)))],
               st_readers = st_readers st @
                 [create_reader (dataset_split config) tok (dp gs) (dataset_min_seq_len config)
                    (dataset_max_seq_len config)
                    \<lparr>batching = LengthBatching (dataset_max_num_tokens config), direction = d,
                      sync_mode = UNTIL_LAST, num_prefetch = dataset_num_prefetch config, seed = st_seed st\<rparr>,
                  create_reader (dataset_split config) tok (dp gs) (dataset_min_seq_len config)
                    (dataset_max_seq_len config)
                    \<lparr>batching = StaticBatching (generator_batch_size config), direction = d,
                      sync_mode = UNTIL_LAST, num_prefetch = dataset_num_prefetch config, seed = st_seed st + 1\<rparr>],
               st_fs = fs1\<rparr>)"
  using assms
  by (simp add: load_direction_def Let_def MTBleuChrfEvalUnit_init_Inr split: sum.splits prod.splits)

lemma load_direction_other:
  assumes "rank (tp gs) \<noteq> 0"
  shows "load_direction config out gs tok g c d st =
          Inr \<lparr>st_seed = st_seed st + 2,
               st_units = st_units st @ [LossUnit (MTLossEvalUnit_init c d gs),
                  ScoreUnit (projr (MTBleuChrfEvalUnit_init d g tok gs None None None))],
               st_readers = st_readers st @
                 [create_reader (dataset_split config) tok (dp gs) (dataset_min_seq_len config)
                    (dataset_max_seq_len config)
                    \<lparr>batching = LengthBatching (dataset_max_num_tokens config), direction = d,
                      sync_mode = UNTIL_LAST, num_prefetch = dataset_num_prefetch config, seed = st_seed st\<rparr>,
                  create_reader (dataset_split config) tok (dp gs) (dataset_min_seq_len config)
                    (dataset_max_seq_len config)
                    \<lparr>batching = StaticBatching (generator_batch_size config), direction = d,
                      sync_mode = UNTIL_LAST, num_prefetch = dataset_num_prefetch config, seed = st_seed st + 1\<rparr>],
               st_fs = st_fs st\<rparr>"
  using assms
  by (simp add: load_direction_def Let_def MTBleuChrfEvalUnit_init_Inr)

lemma load_direction_Inr_facts:
  assumes "load_direction config out gs tok g c d st = Inr st'"
  shows "st_seed st' = st_seed st + 2"
    and "map (\<lambda>r. seed (reader_options r)) (st_readers st')
           = map (\<lambda>r. seed (reader_options r)) (st_readers st) @ [st_seed st, st_seed st + 1]"
    and "map (\<lambda>r. batching (reader_options r)) (st_readers st')
           = map (\<lambda>r. batching (reader_options r)) (st_readers st)
             @ [LengthBatching (dataset_max_num_tokens config), StaticBatching (generator_batch_size config)]"
    and "mkdir_denied (st_fs st') = mkdir_denied (st_fs st)"
    and "open_denied (st_fs st') = open_denied (st_fs st)"
    and "rank (tp gs) = 0 \<Longrightarrow> \<not> denied_for (st_fs st) out (rank (dp gs)) d"
    and "rank (tp gs) = 0 \<Longrightarrow>
           files (st_fs st') = files (st_fs st)
             @ [src_file out d (rank (dp gs)), ref_file out d (rank (dp gs)), hyp_file out d (rank (dp gs))]"
    and "rank (tp gs) = 0 \<Longrightarrow>
           directories (st_fs st') = directories (st_fs st) @ [parent (src_file out d (rank (dp gs)))]"
    and "rank (tp gs) = 0 \<Longrightarrow>
           all_streams (st_units st') = all_streams (st_units st)
             @ [new_stream (src_file out d (rank (dp gs))), new_stream (ref_file out d (rank (dp gs))),
                new_stream (hyp_file out d (rank (dp gs)))]"
    and "rank (tp gs) \<noteq> 0 \<Longrightarrow> st_fs st' = st_fs st"
    and "rank (tp gs) \<noteq> 0 \<Longrightarrow> all_streams (st_units st') = all_streams (st_units st) @ [None, None, None]"
    and "map unit_display_name (st_units st')
           = map unit_display_name (st_units st) @ [''loss/'' @ direction_str d, ''score/'' @ direction_str d]"
proof -
  consider (w) "rank (tp gs) = 0" | (o) "rank (tp gs) \<noteq> 0" by blast
  then have "st_seed st' = st_seed st + 2 \<and>
     map (\<lambda>r. seed (reader_options r)) (st_readers st')
           = map (\<lambda>r. seed (reader_options r)) (st_readers st) @ [st_seed st, st_seed st + 1] \<and>
     map (\<lambda>r. batching (reader_options r)) (st_readers st')
           = map (\<lambda>r. batching (reader_options r)) (st_readers st)
             @ [LengthBatching (dataset_max_num_tokens config), StaticBatching (generator_batch_size config)] \<and>
     mkdir_denied (st_fs st') = mkdir_denied (st_fs st) \<and>
     open_denied (st_fs st') = open_denied (st_fs st) \<and>
     (rank (tp gs) = 0 \<longrightarrow> \<not> denied_for (st_fs st) out (rank (dp gs)) d \<and>
        files (st_fs st') = files (st_fs st)
             @ [src_file out d (rank (dp gs)), ref_file out d (rank (dp gs)), hyp_file out d (rank (dp gs))] \<and>
        directories (st_fs st') = directories (st_fs st) @ [parent (src_file out d (rank (dp gs)))] \<and>
        all_streams (st_units st') = all_streams (st_units st)
             @ [new_stream (src_file out d (rank (dp gs))), new_stream (ref_file out d (rank (dp gs))),
                new_stream (hyp_file out d (rank (dp gs)))]) \<and>
     (rank (tp gs) \<noteq> 0 \<longrightarrow> st_fs st' = st_fs st \<and>
        all_streams (st_units st') = all_streams (st_units st) @ [None, None, None]) \<and>
     map unit_display_name (st_units st')
           = map unit_display_name (st_units st) @ [''loss/'' @ direction_str d, ''score/'' @ direction_str d]"
  proof cases
    case w
    show ?thesis
      using assms w
      by (auto simp: load_direction_tp0 open_output_streams_cases create_reader_def denied_for_def
          all_streams_def new_stream_def MTBleuChrfEvalUnit_init_Inr MTLossEvalUnit_init_def
          split: if_splits)
  next
    case o
    show ?thesis
      using assms o
      by (auto simp: load_direction_other create_reader_def all_streams_def
          MTBleuChrfEvalUnit_init_Inr MTLossEvalUnit_init_def)
  qed
  then show "st_seed st' = st_seed st + 2"
    and "map (\<lambda>r. seed (reader_options r)) (st_readers st')
           = map (\<lambda>r. seed (reader_options r)) (st_readers st) @ [st_seed st, st_seed st + 1]"
    and "map (\<lambda>r. batching (reader_options r)) (st_readers st')
           = map (\<lambda>r. batching (reader_options r)) (st_readers st)
             @ [LengthBatching (dataset_max_num_tokens config), StaticBatching (generator_batch_size config)]"
    and "mkdir_denied (st_fs st') = mkdir_denied (st_fs st)"
    and "open_denied (st_fs st') = open_denied (st_fs st)"
    and "rank (tp gs) = 0 \<Longrightarrow> \<not> denied_for (st_fs st) out (rank (dp gs)) d"
    and "rank (tp gs) = 0 \<Longrightarrow>
           files (st_fs st') = files (st_fs st)
             @ [src_file out d (rank (dp gs)), ref_file out d (rank (dp gs)), hyp_file out d (rank (dp gs))]"
    and "rank (tp gs) = 0 \<Longrightarrow>
           directories (st_fs st') = directories (st_fs st) @ [parent (src_file out d (rank (dp gs)))]"
    and "rank (tp gs) = 0 \<Longrightarrow>
           all_streams (st_units st') = all_streams (st_units st)
             @ [new_stream (src_file out d (rank (dp gs))), new_stream (ref_file out d (rank (dp gs))),
                new_stream (hyp_file out d (rank (dp gs)))]"
    and "rank (tp gs) \<noteq> 0 \<Longrightarrow> st_fs st' = st_fs st"
    and "rank (tp gs) \<noteq> 0 \<Longrightarrow> all_streams (st_units st') = all_streams (st_units st) @ [None, None, None]"
    and "map unit_display_name (st_units st')
           = map unit_display_name (st_units st) @ [''loss/'' @ direction_str d, ''score/'' @ direction_str d]"
    by blast+
qed

lemma load_direction_Inr_directions:
  assumes "load_direction config out gs tok g c d st = Inr st'"
  shows "map (\<lambda>r. direction (reader_options r)) (st_readers st')
           = map (\<lambda>r. direction (reader_options r)) (st_readers st) @ [d, d]"
proof (cases "rank (tp gs) = 0")
  case True
  then show ?thesis using assms
    by (auto simp: load_direction_tp0 open_output_streams_cases create_reader_def split: if_splits)
next
  case False
  then show ?thesis using assms by (auto simp: load_direction_other create_reader_def)
qed

lemma load_direction_Inl_facts:
  assumes "load_direction config out gs tok g c d st = Inl e"
  shows "rank (tp gs) = 0 \<and>
     (\<exists>p. (e = directory_error p \<and> p \<in> set (mkdir_denied (st_fs st))) \<or>
          (e = file_error p \<and> p \<in> set (open_denied (st_fs st))))"
proof (cases "rank (tp gs) = 0")
  case True
  then show ?thesis using assms
    by (auto simp: load_direction_tp0 open_output_streams_cases split: if_splits)
next
  case False
  then show ?thesis using assms by (simp add: load_direction_other)
qed

lemma load_direction_denied:
  assumes "rank (tp gs) = 0" "denied_for (st_fs st) out (rank (dp gs)) d"
  shows "\<exists>e. load_direction config out gs tok g c d st = Inl e"
  using assms by (auto simp: load_direction_tp0 open_output_streams_cases denied_for_def)

section \<open>Loading the evaluator: the loop\<close>

lemma seeds_from_eq: "seeds_from s n = map (\<lambda>i. s + int i) [0..<n]"
proof (induction n arbitrary: s)
  case 0
  then show ?case by simp
next
  case (Suc n)
  have "[0..<Suc n] = 0 # map Suc [0..<n]"
    by (simp add: upt_conv_Cons map_Suc_upt del: upt_Suc)
  then have "map (\<lambda>i. s + int i) [0..<Suc n] = s # map (\<lambda>i. s + 1 + int i) [0..<n]"
    by (simp add: comp_def algebra_simps del: upt_Suc)
  then show ?case using Suc.IH [of "s + 1"] by simp
qed

lemma seeds_from_step: "seeds_from s (Suc (Suc n)) = s # (s + 1) # seeds_from (s + 2) n"
  by (simp add: add.assoc)

lemma load_directions_Inr_facts:
  assumes "load_directions config out gs tok g c ds st = Inr st'"
  shows "st_seed st' = st_seed st + 2 * int (length ds) \<and>
     map (\<lambda>r. seed (reader_options r)) (st_readers st')
       = map (\<lambda>r. seed (reader_options r)) (st_readers st) @ seeds_from (st_seed st) (2 * length ds) \<and>
     map (\<lambda>r. batching (reader_options r)) (st_readers st')
       = map (\<lambda>r. batching (reader_options r)) (st_readers st)
         @ concat (map (\<lambda>d. [LengthBatching (dataset_max_num_tokens config),
                               StaticBatching (generator_batch_size config)]) ds) \<and>
     map unit_display_name (st_units st')
       = map unit_display_name (st_units st)
         @ concat (map (\<lambda>d. [''loss/'' @ direction_str d, ''score/'' @ direction_str d]) ds) \<and>
     (rank (tp gs) = 0 \<longrightarrow>
        files (st_fs st') = files (st_fs st) @ output_files out (rank (dp gs)) ds \<and>
        directories (st_fs st') = directories (st_fs st) @ output_dirs out (rank (dp gs)) ds \<and>
        all_streams (st_units st') = all_streams (st_units st)
          @ map new_stream (output_files out (rank (dp gs)) ds)) \<and>
     (rank (tp gs) \<noteq> 0 \<longrightarrow>
        st_fs st' = st_fs st \<and>
        all_streams (st_units st') = all_streams (st_units st) @ replicate (3 * length ds) None)"
  using assms
proof (induction ds arbitrary: st)
  case Nil
  then show ?case by (simp add: output_files_def output_dirs_def)
next
  case (Cons d ds)
  from Cons.prems obtain st1 where
    s1: "load_direction config out gs tok g c d st = Inr st1" and
    r: "load_directions config out gs tok g c ds st1 = Inr st'"
    by (auto split: sum.splits)
  note f = load_direction_Inr_facts [OF s1]
  note ih = Cons.IH [OF r]
  have len: "2 * length (d # ds) = Suc (Suc (2 * length ds))" by simp
  have rep: "replicate (3 * length (d # ds)) None = [None, None, None] @ replicate (3 * length ds) (None :: text_stream option)"
    by (simp add: numeral_3_eq_3)
  show ?case
    unfolding len seeds_from_step rep
    using ih f
    by (simp add: output_files_def output_dirs_def)
qed

lemma load_directions_Inr_directions:
  assumes "load_directions config out gs tok g c ds st = Inr st'"
  shows "map (\<lambda>r. direction (reader_options r)) (st_readers st')
           = map (\<lambda>r. direction (reader_options r)) (st_readers st) @ concat (map (\<lambda>d. [d, d]) ds)"
  using assms
proof (induction ds arbitrary: st)
  case Nil
  then show ?case by simp
next
  case (Cons d ds)
  from Cons.prems obtain st1 where
    s1: "load_direction config out gs tok g c d st = Inr st1" and
    r: "load_directions config out gs tok g c ds st1 = Inr st'"
    by (auto split: sum.splits)
  show ?case using Cons.IH [OF r] load_direction_Inr_directions [OF s1] by simp
qed

lemma load_directions_Inl_facts:
  assumes "load_directions config out gs tok g c ds st = Inl e"
  shows "rank (tp gs) = 0 \<and>
     (\<exists>p. (e = directory_error p \<and> p \<in> set (mkdir_denied (st_fs st))) \<or>
          (e = file_error p \<and> p \<in> set (open_denied (st_fs st))))"
  using assms
proof (induction ds arbitrary: st)
  case Nil
  then show ?case by simp
next
  case (Cons d ds)
  show ?case
  proof (cases "load_direction config out gs tok g c d st")
    case (Inl e')
    then have "e' = e" using Cons.prems by simp
    then show ?thesis using load_direction_Inl_facts Inl by blast
  next
    case (Inr st1)
    then have "load_directions config out gs tok g c ds st1 = Inl e" using Cons.prems by simp
    from Cons.IH [OF this] load_direction_Inr_facts(4,5) [OF Inr]
    show ?thesis by simp
  qed
qed

lemma load_directions_denied:
  assumes "rank (tp gs) = 0" "d \<in> set ds" "denied_for (st_fs st) out (rank (dp gs)) d"
  shows "\<exists>e. load_directions config out gs tok g c ds st = Inl e"
  using assms
proof (induction ds arbitrary: st)
  case Nil
  then show ?case by simp
next
  case (Cons d' ds)
  show ?case
  proof (cases "load_direction config out gs tok g c d' st")
    case (Inl e)
    then show ?thesis by simp
  next
    case (Inr st1)
    then have nd: "\<not> denied_for (st_fs st) out (rank (dp gs)) d'"
      using load_direction_Inr_facts(6) Cons.prems(1) by blast
    then have "d \<in> set ds" using Cons.prems by auto
    moreover have "denied_for (st_fs st1) out (rank (dp gs)) d"
      using Cons.prems(3) load_direction_Inr_facts(4,5) [OF Inr] by (simp add: denied_for_def)
    ultimately have "\<exists>e. load_directions config out gs tok g c ds st1 = Inl e"
      using Cons.IH Cons.prems(1) by blast
    then show ?thesis using Inr by simp
  qed
qed

lemma sublist_path_directory_error: "directory_error p = SetupError m \<Longrightarrow> sublist (path_str p) m"
  by (auto simp: directory_error_def sublist_def intro: exI [of _ "''The '' @ [CHR 0x27]"])

lemma sublist_path_file_error: "file_error p = SetupError m \<Longrightarrow> sublist (path_str p) m"
  by (auto simp: file_error_def sublist_def intro: exI [of _ "''The '' @ [CHR 0x27]"])

lemma load_mt_evaluator_result:
  "load_mt_evaluator ext fs config out =
     (case loaded_state ext fs config out of
        Inl e \<Rightarrow> Inl e
      | Inr st \<Rightarrow> Inr \<lparr>units = st_units st, data_readers = st_readers st,
                        evaluator_seed = st_seed st, evaluator_fs = st_fs st\<rparr>)"
  by (simp add: load_mt_evaluator_def loaded_state_def loaded_model_def Let_def)

lemma load_mt_evaluator_Inr:
  assumes "load_mt_evaluator ext fs config out = Inr ev"
  shows "\<exists>st. loaded_state ext fs config out = Inr st \<and>
          units ev = st_units st \<and> data_readers ev = st_readers st \<and>
          evaluator_seed ev = st_seed st \<and> evaluator_fs ev = st_fs st"
  using assms by (auto simp: load_mt_evaluator_result split: sum.splits)

lemma call_keeps_no_streams:
  assumes "src_output_stream u = None" "ref_output_stream u = None" "hyp_output_stream u = None"
  shows "src_output_stream (snd (MTBleuChrfEvalUnit_call u batch)) = None \<and>
         ref_output_stream (snd (MTBleuChrfEvalUnit_call u batch)) = None \<and>
         hyp_output_stream (snd (MTBleuChrfEvalUnit_call u batch)) = None"
  using assms
  by (auto simp: MTBleuChrfEvalUnit_call_def Let_def split_beta dump_None
      split: option.splits sum.splits)

lemma demo_loads: "\<not> isl (load_mt_evaluator (demo_collaborators 0) (demo_fs [] []) demo_config demo_output_dir)"
  by code_simp

lemma demo_paths: "output_files demo_output_dir 1 [demo_direction] =
  [\<lparr>anchor = ''/'', parts = [''out'', ''translations'', ''eng-deu'', ''rank_1.src.txt'']\<rparr>,
   \<lparr>anchor = ''/'', parts = [''out'', ''translations'', ''eng-deu'', ''rank_1.ref.txt'']\<rparr>,
   \<lparr>anchor = ''/'', parts = [''out'', ''translations'', ''eng-deu'', ''rank_1.hyp.txt'']\<rparr>]"
  by code_simp

lemma demo_dirs: "output_dirs demo_output_dir 1 [demo_direction] =
  [\<lparr>anchor = ''/'', parts = [''out'', ''translations'', ''eng-deu'']\<rparr>]"
  by code_simp

lemma demo_ref_text: "path_str (ref_file demo_output_dir demo_direction 1) = ''/out/translations/eng-deu/rank_1.ref.txt''"
  by code_simp

section \<open>Loading the evaluator: seeds, output files and set-up errors\<close>

text \<open>
  C9. In a run of \<open>load_mt_evaluator\<close> that returns an evaluator, the \<open>i\<close>-th reader
  (from 0) has seed \<open>config.seed + 1 + i\<close>; the readers come two per direction, the
  length-batched loss reader before the statically batched scoring reader; the seeds are
  pairwise distinct; and the evaluator is handed \<open>config.seed + 1 + 2 n\<close> for \<open>n\<close>
  directions.
\<close>

theorem reader_seeds:
  assumes "load_mt_evaluator ext fs config out = Inr ev"
  shows "map (\<lambda>r. seed (reader_options r)) (data_readers ev)
           = map (\<lambda>i. config_seed config + 1 + int i) [0..<2 * length (directions ext (dataset_split config))] \<and>
         map (\<lambda>r. batching (reader_options r)) (data_readers ev)
           = concat (map (\<lambda>d. [LengthBatching (dataset_max_num_tokens config),
                                 StaticBatching (generator_batch_size config)])
                      (directions ext (dataset_split config))) \<and>
         map (\<lambda>r. direction (reader_options r)) (data_readers ev)
           = concat (map (\<lambda>d. [d, d]) (directions ext (dataset_split config))) \<and>
         distinct (map (\<lambda>r. seed (reader_options r)) (data_readers ev)) \<and>
         evaluator_seed ev = config_seed config + 1 + 2 * int (length (directions ext (dataset_split config)))"
proof -
  let ?ds = "directions ext (dataset_split config)"
  obtain st where l0: "loaded_state ext fs config out = Inr st"
    and ev: "data_readers ev = st_readers st" "evaluator_seed ev = st_seed st"
    using load_mt_evaluator_Inr [OF assms] by blast
  note l = l0 [unfolded loaded_state_def]
  have s: "map (\<lambda>r. seed (reader_options r)) (data_readers ev)
           = map (\<lambda>i. config_seed config + 1 + int i) [0..<2 * length ?ds]"
    using load_directions_Inr_facts [OF l] ev by (simp add: seeds_from_eq)
  have "inj_on (\<lambda>i. config_seed config + 1 + int i) (set [0..<2 * length ?ds])"
    by (simp add: inj_on_def)
  then have "distinct (map (\<lambda>i. config_seed config + 1 + int i) [0..<2 * length ?ds])"
    by (simp add: distinct_map)
  then show ?thesis
    using s load_directions_Inr_facts [OF l] load_directions_Inr_directions [OF l] ev by simp
qed

theorem reader_seeds_witness:
  "map (\<lambda>r. seed (reader_options r))
     (data_readers (projr (load_mt_evaluator (demo_collaborators 0) (demo_fs [] []) demo_config demo_output_dir)))
     = [3, 4] \<and>
   evaluator_seed (projr (load_mt_evaluator (demo_collaborators 0) (demo_fs [] []) demo_config demo_output_dir)) = 5"
  using reader_seeds [of "demo_collaborators 0" "demo_fs [] []" demo_config demo_output_dir
      "projr (load_mt_evaluator (demo_collaborators 0) (demo_fs [] []) demo_config demo_output_dir)"]
    sum.collapse(2) [OF demo_loads]
  by (simp add: demo_config_def demo_collaborators_def numeral_2_eq_2)

text \<open>
  C4. On a process with \<open>tp.rank = 0\<close>, a run that returns an evaluator has made, per
  direction and in order, the directory of the three files and the files
  \<open>translations/<direction>/rank_<dp_rank>.src.txt\<close>, \<open>.ref.txt\<close> and \<open>.hyp.txt\<close>
  under the output directory, and nothing else, and the scoring units hold fresh streams
  on exactly these files. On any other tensor-parallel rank the run always returns an
  evaluator, leaves the file system as it was and gives every scoring unit no stream; and
  a scoring unit without streams has none after a call either.
\<close>

theorem output_files_layout:
  "(rank (tp (setup_gangs ext)) = 0 \<and> load_mt_evaluator ext fs config out = Inr ev \<longrightarrow>
      files (evaluator_fs ev) = files fs
        @ output_files out (rank (dp (setup_gangs ext))) (directions ext (dataset_split config)) \<and>
      directories (evaluator_fs ev) = directories fs
        @ output_dirs out (rank (dp (setup_gangs ext))) (directions ext (dataset_split config)) \<and>
      all_streams (units ev)
        = map new_stream (output_files out (rank (dp (setup_gangs ext))) (directions ext (dataset_split config)))) \<and>
   (rank (tp (setup_gangs ext)) \<noteq> 0 \<longrightarrow>
      (\<exists>ev'. load_mt_evaluator ext fs config out = Inr ev' \<and> evaluator_fs ev' = fs \<and>
         all_streams (units ev') = replicate (3 * length (directions ext (dataset_split config))) None)) \<and>
   (\<forall>(u :: score_unit) batch. src_output_stream u = None \<and> ref_output_stream u = None \<and> hyp_output_stream u = None \<longrightarrow>
      unit_streams (ScoreUnit (snd (MTBleuChrfEvalUnit_call u batch))) = [None, None, None])"
proof (intro conjI impI allI)
  assume a: "rank (tp (setup_gangs ext)) = 0 \<and> load_mt_evaluator ext fs config out = Inr ev"
  then obtain st where l0: "loaded_state ext fs config out = Inr st"
    and ev: "units ev = st_units st" "evaluator_fs ev = st_fs st"
    using load_mt_evaluator_Inr by blast
  note l = l0 [unfolded loaded_state_def]
  from load_directions_Inr_facts [OF l] a ev
  show "files (evaluator_fs ev) = files fs
        @ output_files out (rank (dp (setup_gangs ext))) (directions ext (dataset_split config))"
    and "directories (evaluator_fs ev) = directories fs
        @ output_dirs out (rank (dp (setup_gangs ext))) (directions ext (dataset_split config))"
    and "all_streams (units ev)
        = map new_stream (output_files out (rank (dp (setup_gangs ext))) (directions ext (dataset_split config)))"
    by (simp_all add: all_streams_def)
next
  assume o: "rank (tp (setup_gangs ext)) \<noteq> 0"
  have "\<not> isl (loaded_state ext fs config out)"
    using load_directions_Inl_facts o unfolding loaded_state_def by (metis sum.collapse(1))
  then obtain st where l0: "loaded_state ext fs config out = Inr st"
    by (metis sum.collapse(2))
  note l = l0 [unfolded loaded_state_def]
  note r = load_mt_evaluator_result [of ext fs config out]
  from load_directions_Inr_facts [OF l] o r l0
  show "\<exists>ev'. load_mt_evaluator ext fs config out = Inr ev' \<and> evaluator_fs ev' = fs \<and>
         all_streams (units ev') = replicate (3 * length (directions ext (dataset_split config))) None"
    by (simp add: all_streams_def)
next
  fix u :: score_unit and batch
  assume "src_output_stream u = None \<and> ref_output_stream u = None \<and> hyp_output_stream u = None"
  then show "unit_streams (ScoreUnit (snd (MTBleuChrfEvalUnit_call u batch))) = [None, None, None]"
    using call_keeps_no_streams [of u batch] by simp
qed

theorem output_files_layout_witness:
  "files (evaluator_fs (projr (load_mt_evaluator (demo_collaborators 0) (demo_fs [] []) demo_config demo_output_dir)))
     = [\<lparr>anchor = ''/'', parts = [''out'', ''translations'', ''eng-deu'', ''rank_1.src.txt'']\<rparr>,
        \<lparr>anchor = ''/'', parts = [''out'', ''translations'', ''eng-deu'', ''rank_1.ref.txt'']\<rparr>,
        \<lparr>anchor = ''/'', parts = [''out'', ''translations'', ''eng-deu'', ''rank_1.hyp.txt'']\<rparr>] \<and>
   directories (evaluator_fs (projr (load_mt_evaluator (demo_collaborators 0) (demo_fs [] []) demo_config demo_output_dir)))
     = [\<lparr>anchor = ''/'', parts = [''out'', ''translations'', ''eng-deu'']\<rparr>] \<and>
   evaluator_fs (projr (load_mt_evaluator (demo_collaborators 1) (demo_fs [] []) demo_config demo_output_dir))
     = demo_fs [] []"
  using output_files_layout [of "demo_collaborators 0" "demo_fs [] []" demo_config demo_output_dir
      "projr (load_mt_evaluator (demo_collaborators 0) (demo_fs [] []) demo_config demo_output_dir)"]
    output_files_layout [of "demo_collaborators 1" "demo_fs [] []" demo_config demo_output_dir]
    sum.collapse(2) [OF demo_loads] demo_paths demo_dirs
  by (auto simp: demo_config_def demo_collaborators_def demo_gangs_def demo_gang_def demo_fs_def)

text \<open>
  C5. On a process with \<open>tp.rank = 0\<close>, if the file system refuses the directory or one
  of the three files of some direction, \<open>load_mt_evaluator\<close> returns no evaluator: it
  raises a \<open>SetupError\<close> whose message contains the full text of a refused path.
\<close>

theorem setup_error_names_path:
  assumes "rank (tp (setup_gangs ext)) = 0"
    and "d \<in> set (directions ext (dataset_split config))"
    and "denied_for fs out (rank (dp (setup_gangs ext))) d"
  shows "\<exists>p m. load_mt_evaluator ext fs config out = Inl (SetupError m) \<and> sublist (path_str p) m \<and>
           (p \<in> set (mkdir_denied fs) \<or> p \<in> set (open_denied fs))"
proof -
  note r = load_mt_evaluator_result [of ext fs config out]
  let ?st = "\<lparr>st_seed = config_seed config + 1, st_units = [], st_readers = [], st_fs = fs\<rparr>"
  have "denied_for (st_fs ?st) out (rank (dp (setup_gangs ext))) d" using assms(3) by simp
  from load_directions_denied [OF assms(1) assms(2) this]
  obtain e where l0: "loaded_state ext fs config out = Inl e"
    unfolding loaded_state_def by blast
  note l = l0 [unfolded loaded_state_def]
  from load_directions_Inl_facts [OF l]
  obtain p where p: "(e = directory_error p \<and> p \<in> set (mkdir_denied fs)) \<or>
          (e = file_error p \<and> p \<in> set (open_denied fs))"
    by auto
  have le: "load_mt_evaluator ext fs config out = Inl e" using r l0 by simp
  from p show ?thesis
  proof
    assume "e = directory_error p \<and> p \<in> set (mkdir_denied fs)"
    then show ?thesis using le sublist_path_directory_error [of p]
      by (auto simp: directory_error_def)
  next
    assume "e = file_error p \<and> p \<in> set (open_denied fs)"
    then show ?thesis using le sublist_path_file_error [of p]
      by (auto simp: file_error_def)
  qed
qed

theorem setup_error_names_path_witness:
  "\<exists>m. load_mt_evaluator (demo_collaborators 0) (demo_fs [] [ref_file demo_output_dir demo_direction 1])
          demo_config demo_output_dir = Inl (SetupError m) \<and>
       sublist ''/out/translations/eng-deu/rank_1.ref.txt'' m"
  using setup_error_names_path [of "demo_collaborators 0" demo_direction demo_config
      "demo_fs [] [ref_file demo_output_dir demo_direction 1]" demo_output_dir]
    demo_ref_text
  by (auto simp: demo_config_def demo_collaborators_def demo_gangs_def demo_gang_def demo_fs_def denied_for_def)

end
